theory Spec2Isabelle
  imports Main
begin

section \<open>JavaScript values as the route handlers use them\<close>

text \<open>
  Identifiers, phone numbers and status names are strings in the source. A string is
  written here as the byte string of its UTF-8 encoding: comparing with a literal,
  testing for the empty string and concatenating are the same on the encoding. Instants
  are milliseconds since the epoch. An optional or nullable string is a
  \<open>string option\<close>; \<open>truthy\<close> is JavaScript's truthiness of such a value
  (\<open>undefined\<close>, \<open>null\<close> and the empty string are falsy).
\<close>

type_synonym ident = string
type_synonym instant = int

definition truthy :: "string option \<Rightarrow> bool" where
  "truthy v = (case v of None \<Rightarrow> False | Some s \<Rightarrow> s \<noteq> [])"

text \<open>\<open>a || b\<close> on optional strings, and \<open>a || null\<close>.\<close>

definition orElse :: "string option \<Rightarrow> string option \<Rightarrow> string option" where
  "orElse a b = (if truthy a then a else b)"

definition orNull :: "string option \<Rightarrow> string option" where
  "orNull a = (if truthy a then a else None)"

text \<open>
  A \<open>Date\<close> object: a time value within 8.64e15 milliseconds of the epoch, or an
  Invalid Date. \<open>new Date(ms)\<close> is invalid outside that range.
\<close>

datatype jsDate = InvalidDate | ValidDate instant

definition newDate :: "int \<Rightarrow> jsDate" where
  "newDate ms = (if \<bar>ms\<bar> \<le> 8640000000000000 then ValidDate ms else InvalidDate)"

text \<open>\<open>Number.prototype.toString\<close> on a natural number (an HTTP status).\<close>

fun digitsRev :: "nat \<Rightarrow> nat \<Rightarrow> string" where
  "digitsRev 0 n = []"
| "digitsRev (Suc fuel) n =
     (''0123456789'' ! (n mod 10)) # (if n < 10 then [] else digitsRev fuel (n div 10))"

definition numToString :: "nat \<Rightarrow> string" where
  "numToString n = rev (digitsRev (Suc n) n)"

section \<open>The store\<close>

text \<open>
  One record per table the handlers touch, with the columns the handlers read or
  write. The Prisma schema is not part of the sources; a table is the list of its
  rows in insertion order, \<open>findFirst\<close> and \<open>findUnique\<close> return the first row
  that matches, \<open>update\<close> rewrites the rows with the given primary key.
\<close>

datatype json = JNull | JBool bool | JNum int | JStr string
  | JArr "json list" | JObj "(string \<times> json) list"

record account =
  a_id :: ident
  a_tenantId :: ident
  a_deploymentType :: "string option"
  a_channelType :: "string option"
  a_wahaBaseUrl :: "string option"
  a_wahaApiKey :: "string option"
  a_internalWahaUrl :: "string option"
  a_internalApiKey :: "string option"
  a_accessToken :: "string option"
  a_metaAppSecret :: "string option"
  a_businessName :: "string option"
  a_primaryPhone :: "string option"
  a_isWebConnected :: bool
  a_status :: string
  a_errorMessage :: "string option"
  a_other :: "(string \<times> json) list"

record session =
  s_id :: ident
  s_accountId :: ident
  s_employeeId :: "ident option"
  s_providerSessionId :: "string option"
  s_qrCodeUrl :: "string option"
  s_status :: string
  s_isActive :: bool
  s_deviceName :: "string option"
  s_phoneNumber :: "string option"
  s_dailySentCount :: nat
  s_dailyRecvCount :: nat
  s_lastSyncAt :: "instant option"
  s_lastSeenAt :: "instant option"

record contact =
  ct_id :: ident
  ct_tenantId :: ident
  ct_name :: string
  ct_email :: string
  ct_phone :: string
  ct_type :: string
  ct_status :: string
  ct_source :: string

record contactIdentity =
  ci_id :: ident
  ci_contactId :: ident
  ci_whatsappNumber :: string
  ci_verified :: bool
  ci_verificationDate :: "instant option"

record conversation =
  c_id :: ident
  c_accountId :: ident
  c_contactId :: ident
  c_sessionId :: "ident option"
  c_status :: string
  c_lastMessageAt :: "instant option"
  c_lastDirection :: "string option"
  c_unreadCount :: nat
  c_ticketId :: "ident option"

record message =
  m_id :: ident
  m_conversationId :: ident
  m_sessionId :: ident
  m_employeeId :: "ident option"
  m_direction :: string
  m_messageType :: string
  m_whatsappMessageId :: string
  m_fromNumber :: string
  m_toNumber :: string
  m_text :: "string option"
  m_mediaUrl :: "string option"
  m_mediaMimeType :: "string option"
  m_mediaCaption :: "string option"
  m_templateId :: "ident option"
  m_status :: string
  m_errorCode :: "string option"
  m_errorMessage :: "string option"
  m_sentAt :: "instant option"
  m_deliveredAt :: "instant option"
  m_readAt :: "instant option"
  m_createdAt :: instant

record template =
  t_id :: ident
  t_accountId :: ident
  t_name :: string
  t_category :: string
  t_languageCode :: string
  t_bodyTemplate :: string
  t_headerType :: "string option"
  t_headerContent :: "string option"
  t_footerContent :: "string option"
  t_buttons :: "string option"
  t_createdById :: ident

record auditLog =
  al_accountId :: ident
  al_sessionId :: "ident option"
  al_action :: string
  al_status :: string
  al_description :: "string option"
  al_details :: "json option"
  al_errorCode :: "string option"
  al_errorMessage :: "string option"
  al_userId :: "ident option"
  al_ipAddress :: "string option"
  al_userAgent :: "string option"

record user =
  u_id :: ident
  u_name :: string
  u_email :: string

record store =
  userTable :: "user list"
  whatsappAccount :: "account list"
  whatsappSession :: "session list"
  contactTable :: "contact list"
  whatsappContactIdentity :: "contactIdentity list"
  whatsappConversation :: "conversation list"
  whatsappMessage :: "message list"
  whatsappTemplate :: "template list"
  whatsappAuditLog :: "auditLog list"
  nextId :: nat

text \<open>The primary key the store gives the next created row.\<close>

definition newId :: "store \<Rightarrow> ident" where
  "newId st = ''id'' @ numToString (nextId st)"

section \<open>Responses\<close>

text \<open>
  \<open>Failure n e\<close> is \<open>NextResponse.json({ error: e }, { status: n })\<close>;
  \<open>Reply n p\<close> is a response with status \<open>n\<close> whose body is the payload \<open>p\<close>.
  Rows appear in payloads as the rows themselves; the relations a query includes beside
  them (\<open>employee\<close>, \<open>_count\<close>) are left out, except for account objects, which
  are JSON objects because the account routes delete keys from them.
\<close>

datatype payload =
    PSuccess
  | PMessage message
  | PMessages "message list" nat nat nat
  | PSession session
  | PSessions "session list"
  | PSessionStatus string "string option" "instant option" "instant option"
  | PConversation conversation
  | PTemplate template
  | PTemplates "template list"
  | PAccount "(string \<times> json) list"
  | PAccounts "(string \<times> json) list list"

datatype response = Failure nat string | Reply nat payload

section \<open>Caller identity: packages/@payaid/auth/src/license.ts\<close>

text \<open>
  The routes call \<open>requireModuleAccess\<close> and \<open>handleLicenseError\<close>; both are
  defined in license.ts. The \<open>Authorization\<close> header after \<open>verifyToken\<close> is
  absent or not a bearer token, a token that does not verify, or the decoded payload.
\<close>

record jwtPayload =
  jp_userId :: ident
  jp_tenantId :: "ident option"
  jp_licensedModules :: "string list option"

datatype authorization = NoBearer | InvalidToken | Token jwtPayload

record request =
  rq_authorization :: authorization
  rq_xForwardedFor :: "string option"
  rq_xRealIp :: "string option"
  rq_userAgent :: "string option"

record caller =
  cl_userId :: ident
  cl_tenantId :: ident

fun joinWith :: "string \<Rightarrow> string list \<Rightarrow> string" where
  "joinWith sep [] = []"
| "joinWith sep [x] = x"
| "joinWith sep (x # y # ys) = x @ sep @ joinWith sep (y # ys)"

text \<open>\<open>Inl\<close> carries the message of the \<open>LicenseError\<close> that is thrown.\<close>

definition checkModuleAccess :: "request \<Rightarrow> string \<Rightarrow> string + caller" where
  "checkModuleAccess rq moduleId =
     (case rq_authorization rq of
        NoBearer \<Rightarrow> Inl ''No authorization token provided''
      | InvalidToken \<Rightarrow> Inl ''Invalid or expired token''
      | Token p \<Rightarrow>
          (case jp_tenantId p of
             None \<Rightarrow> Inl ''Invalid token: missing tenantId''
           | Some tid \<Rightarrow>
               if tid = [] then Inl ''Invalid token: missing tenantId''
               else
                 let licensedModules =
                       (case jp_licensedModules p of None \<Rightarrow> [] | Some ms \<Rightarrow> ms)
                 in if moduleId \<notin> set licensedModules then
                      Inl (''Module '' @ [CHR 0x27] @ moduleId @ [CHR 0x27]
                           @ '' is not licensed. Licensed modules: ''
                           @ (let j = joinWith '', '' licensedModules
                              in if j = [] then ''none'' else j))
                    else Inr \<lparr>cl_userId = jp_userId p, cl_tenantId = tid\<rparr>))"

definition requireModuleAccess :: "request \<Rightarrow> string \<Rightarrow> string + caller" where
  "requireModuleAccess rq moduleId = checkModuleAccess rq moduleId"

text \<open>\<open>handleLicenseError\<close> on a \<open>LicenseError\<close>: status 403 with its message.\<close>

definition handleLicenseError :: "string \<Rightarrow> response" where
  "handleLicenseError msg = Failure 403 msg"

text \<open>
  \<open>request.headers.get('x-forwarded-for') || request.headers.get('x-real-ip') || undefined\<close>
\<close>

definition ipAddress :: "request \<Rightarrow> string option" where
  "ipAddress rq = orElse (orElse (rq_xForwardedFor rq) (rq_xRealIp rq)) None"

definition userAgent :: "request \<Rightarrow> string option" where
  "userAgent rq = orElse (rq_userAgent rq) None"

text \<open>
  What the handlers do not decide: the clock (a valid date), the engine's
  \<open>String.prototype.toUpperCase\<close> with its Unicode case tables, zod's \<open>url()\<close>
  test, whether the write to the audit table throws, and the columns of a new account
  row that the code never names (with the values the store gives them).
\<close>

record env =
  e_now :: instant
  e_toUpperCase :: "string \<Rightarrow> string"
  e_isUrl :: "string \<Rightarrow> bool"
  e_auditWriteFails :: bool
  e_accountDefaults :: "(string \<times> json) list"

text \<open>Row lookups by primary key, and the relations \<open>include\<close> loads.\<close>

definition findAccount :: "store \<Rightarrow> ident \<Rightarrow> account option" where
  "findAccount st i = find (\<lambda>a. a_id a = i) (whatsappAccount st)"

definition findSession :: "store \<Rightarrow> ident \<Rightarrow> session option" where
  "findSession st i = find (\<lambda>s. s_id s = i) (whatsappSession st)"

definition findConversation :: "store \<Rightarrow> ident \<Rightarrow> conversation option" where
  "findConversation st i = find (\<lambda>c. c_id c = i) (whatsappConversation st)"

definition conversationSession :: "store \<Rightarrow> conversation \<Rightarrow> session option" where
  "conversationSession st c =
     (case c_sessionId c of None \<Rightarrow> None | Some sid \<Rightarrow> findSession st sid)"

definition createAuditLog :: "store \<Rightarrow> auditLog \<Rightarrow> store" where
  "createAuditLog st e = st\<lparr>whatsappAuditLog := whatsappAuditLog st @ [e]\<rparr>"

section \<open>Status webhook: POST /api/whatsapp/webhooks/status\<close>

record statusData =
  sd_id :: "string option"
  sd_status :: "string option"
  sd_timestamp :: "int option"

record statusBody =
  sb_instance :: "string option"
  sb_data :: "statusData option"

text \<open>\<open>timestamp ? new Date(timestamp * 1000) : new Date()\<close>: 0 is falsy.\<close>

definition eventTime :: "instant \<Rightarrow> int option \<Rightarrow> jsDate" where
  "eventTime now timestamp =
     (case timestamp of
        None \<Rightarrow> ValidDate now
      | Some t \<Rightarrow> if t = 0 then ValidDate now else newDate (t * 1000))"

text \<open>
  Lines 40 to 56 of the route: the status and the two timestamps the row is
  rewritten with, from the row as found and the webhook's \<open>status\<close> and
  \<open>timestamp\<close>. A timestamp is \<open>null\<close> or a date.
\<close>

definition rowDate :: "instant option \<Rightarrow> jsDate option" where
  "rowDate v = (case v of None \<Rightarrow> None | Some t \<Rightarrow> Some (ValidDate t))"

definition mapWahaStatus ::
  "env \<Rightarrow> message \<Rightarrow> string option \<Rightarrow> int option
    \<Rightarrow> string \<times> jsDate option \<times> jsDate option" where
  "mapWahaStatus env msg wahaStatus timestamp =
     (let statusUpper = e_toUpperCase env (case wahaStatus of None \<Rightarrow> [] | Some s \<Rightarrow> s) in
      if statusUpper = ''DELIVERED'' \<or> statusUpper = ''ACK'' then
        (''delivered'',
         (if m_deliveredAt msg = None then Some (eventTime (e_now env) timestamp)
          else rowDate (m_deliveredAt msg)),
         rowDate (m_readAt msg))
      else if statusUpper = ''READ'' then
        (''read'', rowDate (m_deliveredAt msg), Some (eventTime (e_now env) timestamp))
      else if statusUpper = ''FAILED'' \<or> statusUpper = ''ERROR'' then
        (''failed'', rowDate (m_deliveredAt msg), rowDate (m_readAt msg))
      else (m_status msg, rowDate (m_deliveredAt msg), rowDate (m_readAt msg)))"

text \<open>
  A date as the store takes it. An Invalid Date has no ISO form, so the write that
  carries one throws: the outer \<open>None\<close>.
\<close>

definition storeDate :: "jsDate option \<Rightarrow> instant option option" where
  "storeDate d =
     (case d of
        None \<Rightarrow> Some None
      | Some InvalidDate \<Rightarrow> None
      | Some (ValidDate t) \<Rightarrow> Some (Some t))"

definition updateMessageStatus ::
  "ident \<Rightarrow> string \<Rightarrow> instant option \<Rightarrow> instant option \<Rightarrow> message \<Rightarrow> message" where
  "updateMessageStatus mid newStatus deliveredAt readAt m =
     (if m_id m = mid
      then m\<lparr>m_status := newStatus, m_deliveredAt := deliveredAt, m_readAt := readAt\<rparr>
      else m)"

definition webhooks_status_POST :: "env \<Rightarrow> store \<Rightarrow> statusBody \<Rightarrow> response \<times> store" where
  "webhooks_status_POST env st body =
     (case sb_data body of
        None \<Rightarrow> (Failure 400 ''Invalid webhook payload'', st)
      | Some data \<Rightarrow>
          if \<not> truthy (sb_instance body) then (Failure 400 ''Invalid webhook payload'', st)
          else if \<not> truthy (sd_id data) then (Failure 400 ''Missing message ID'', st)
          else
            (case find (\<lambda>m. Some (m_whatsappMessageId m) = sd_id data) (whatsappMessage st) of
               None \<Rightarrow> (Failure 404 ''Message not found'', st)
             | Some msg \<Rightarrow>
                 (let (newStatus, deliveredAt, readAt) =
                        mapWahaStatus env msg (sd_status data) (sd_timestamp data)
                  in case (storeDate deliveredAt, storeDate readAt) of
                       (Some deliveredAt', Some readAt') \<Rightarrow>
                         (Reply 200 PSuccess,
                          st\<lparr>whatsappMessage :=
                               map (updateMessageStatus (m_id msg) newStatus deliveredAt' readAt')
                                   (whatsappMessage st)\<rparr>)
                     | _ \<Rightarrow> (Failure 500 ''Webhook processing failed'', st))))"

section \<open>Send: POST /api/whatsapp/messages/send\<close>

record sendBody =
  sn_conversationId :: "string option"
  sn_text :: "string option"
  sn_mediaUrl :: "string option"
  sn_templateId :: "string option"

record sendValidated =
  sv_conversationId :: string
  sv_text :: "string option"
  sv_mediaUrl :: "string option"
  sv_templateId :: "string option"

text \<open>\<open>sendMessageSchema.parse\<close>; \<open>None\<close> is the \<open>ZodError\<close>.\<close>

definition sendMessageSchema :: "(string \<Rightarrow> bool) \<Rightarrow> sendBody \<Rightarrow> sendValidated option" where
  "sendMessageSchema urlOk b =
     (case sn_conversationId b of
        None \<Rightarrow> None
      | Some cid \<Rightarrow>
          if length cid < 1 then None
          else if (case sn_mediaUrl b of None \<Rightarrow> False | Some u \<Rightarrow> \<not> urlOk u) then None
          else Some \<lparr>sv_conversationId = cid, sv_text = sn_text b,
                      sv_mediaUrl = sn_mediaUrl b, sv_templateId = sn_templateId b\<rparr>)"

text \<open>
  The provider's answer to \<open>axios.post\<close>: \<open>Sent messageId id\<close> carries the two
  fields of \<open>wahaResponse.data\<close>; \<open>SendFailed status message errorMessage\<close> carries
  \<open>error.response?.status\<close>, \<open>error.response?.data?.message\<close> and \<open>error.message\<close>.
\<close>

datatype sendOutcome =
    Sent "string option" "string option"
  | SendFailed "nat option" "string option" "string option"

record wahaPayload =
  wp_to :: string
  wp_body :: "string option"
  wp_media :: "string option"
  wp_caption :: "string option"

record sendContext =
  sc_caller :: caller
  sc_validated :: sendValidated
  sc_conversation :: conversation
  sc_session :: session
  sc_toNumber :: string
  sc_fromNumber :: string
  sc_payload :: wahaPayload

text \<open>Lines 165 to 175: the preferred session, or the first available one.\<close>

definition resolveSession :: "store \<Rightarrow> conversation \<Rightarrow> session option" where
  "resolveSession st conv =
     (case conversationSession st conv of
        Some s \<Rightarrow> Some s
      | None \<Rightarrow>
          find (\<lambda>s. s_accountId s = c_accountId conv \<and> s_status s = ''connected'' \<and> s_isActive s)
               (whatsappSession st))"

text \<open>Lines 220 to 242: the body of the provider request, or the early 404.\<close>

definition buildSendPayload :: "store \<Rightarrow> sendValidated \<Rightarrow> string \<Rightarrow> response + wahaPayload" where
  "buildSendPayload st v toNumber =
     (let p = \<lparr>wp_to = toNumber, wp_body = None, wp_media = None, wp_caption = None\<rparr> in
      if truthy (sv_text v) then Inr (p\<lparr>wp_body := sv_text v\<rparr>)
      else if truthy (sv_mediaUrl v) then
        Inr (p\<lparr>wp_media := sv_mediaUrl v,
               wp_caption := (if truthy (sv_text v) then sv_text v else None)\<rparr>)
      else if truthy (sv_templateId v) then
        (case find (\<lambda>t. Some (t_id t) = sv_templateId v) (whatsappTemplate st) of
           None \<Rightarrow> Inl (Failure 404 ''Template not found'')
         | Some t \<Rightarrow> Inr (p\<lparr>wp_body := Some (t_bodyTemplate t)\<rparr>))
      else Inr p)"

text \<open>
  Lines 126 to 163: license, schema, the check that something is to be sent, the
  conversation and its ownership. \<open>Inl\<close> is the response of an early return or of a
  \<open>catch\<close> block. A conversation whose account row is missing makes
  \<open>conversation.account.tenantId\<close> throw, which the outer \<open>catch\<close> answers with 500.
\<close>

definition sendAuthorize ::
  "env \<Rightarrow> store \<Rightarrow> request \<Rightarrow> sendBody
    \<Rightarrow> response + (caller \<times> sendValidated \<times> conversation \<times> account)" where
  "sendAuthorize env st rq body =
     (case requireModuleAccess rq ''marketing'' of
        Inl licenseError \<Rightarrow> Inl (handleLicenseError licenseError)
      | Inr who \<Rightarrow>
     (case sendMessageSchema (e_isUrl env) body of
        None \<Rightarrow> Inl (Failure 400 ''Validation error'')
      | Some validated \<Rightarrow>
     if \<not> truthy (sv_text validated) \<and> \<not> truthy (sv_mediaUrl validated)
        \<and> \<not> truthy (sv_templateId validated)
     then Inl (Failure 400 ''text, mediaUrl, or templateId required'')
     else
     (case findConversation st (sv_conversationId validated) of
        None \<Rightarrow> Inl (Failure 404 ''Conversation not found'')
      | Some conversation \<Rightarrow>
     (case findAccount st (c_accountId conversation) of
        None \<Rightarrow> Inl (Failure 500 ''Failed to send message'')
      | Some acct \<Rightarrow>
     if a_tenantId acct \<noteq> cl_tenantId who then Inl (Failure 403 ''Unauthorized'')
     else Inr (who, validated, conversation, acct)))))"

text \<open>
  Lines 165 to 242: the session, the contact's number, the sender's number, the provider
  configuration and the request body. \<open>Inr\<close> is what the provider call and the writes
  after it use.
\<close>

definition sendResolve :: "env \<Rightarrow> store \<Rightarrow> request \<Rightarrow> sendBody \<Rightarrow> response + sendContext" where
  "sendResolve env st rq body =
     (case sendAuthorize env st rq body of
        Inl early \<Rightarrow> Inl early
      | Inr (who, validated, conversation, acct) \<Rightarrow>
     (case resolveSession st conversation of
        None \<Rightarrow> Inl (Failure 400 ''No active WhatsApp session'')
      | Some sess \<Rightarrow>
     (case find (\<lambda>i. ci_contactId i = c_contactId conversation) (whatsappContactIdentity st) of
        None \<Rightarrow> Inl (Failure 400 ''Contact has no WhatsApp number'')
      | Some identity \<Rightarrow>
     (case s_phoneNumber sess of
        None \<Rightarrow> Inl (Failure 400 ''Session phone number not available'')
      | Some fromNumber \<Rightarrow>
     if fromNumber = [] then Inl (Failure 400 ''Session phone number not available'')
     else if \<not> truthy (a_wahaBaseUrl acct) \<or> \<not> truthy (a_wahaApiKey acct)
     then Inl (Failure 400 ''WAHA configuration incomplete'')
     else
     (case buildSendPayload st validated (ci_whatsappNumber identity) of
        Inl notFound \<Rightarrow> Inl notFound
      | Inr sendPayload \<Rightarrow>
          Inr \<lparr>sc_caller = who, sc_validated = validated, sc_conversation = conversation,
               sc_session = sess, sc_toNumber = ci_whatsappNumber identity,
               sc_fromNumber = fromNumber, sc_payload = sendPayload\<rparr>)))))"

text \<open>Lines 253 to 258: the four variables the \<open>try\<close> / \<open>catch\<close> around the call sets.\<close>

definition sendResult :: "sendOutcome \<Rightarrow> string \<times> string \<times> string \<times> string" where
  "sendResult outcome =
     (case outcome of
        Sent messageId altId \<Rightarrow>
          ((case orElse messageId altId of None \<Rightarrow> [] | Some i \<Rightarrow> i), ''sent'', [], [])
      | SendFailed httpStatus responseMessage errorMessage \<Rightarrow>
          ([], ''failed'',
           (case httpStatus of None \<Rightarrow> ''UNKNOWN'' | Some n \<Rightarrow> numToString n),
           (case orElse responseMessage errorMessage of
              None \<Rightarrow> ''Failed to send message''
            | Some e \<Rightarrow> if e = [] then ''Failed to send message'' else e)))"

text \<open>\<open>s || null\<close> on a string.\<close>

definition strOrNull :: "string \<Rightarrow> string option" where
  "strOrNull s = (if s = [] then None else Some s)"

text \<open>Lines 262 to 285: the row \<open>prisma.whatsappMessage.create\<close> writes.\<close>

definition outboundMessage :: "env \<Rightarrow> store \<Rightarrow> sendContext \<Rightarrow> sendOutcome \<Rightarrow> message" where
  "outboundMessage env st ctx outcome =
     (let (whatsappMessageId, status, errorCode, errorMessage) = sendResult outcome;
          validated = sc_validated ctx
      in \<lparr>m_id = newId st,
          m_conversationId = sv_conversationId validated,
          m_sessionId = s_id (sc_session ctx),
          m_employeeId = Some (cl_userId (sc_caller ctx)),
          m_direction = ''out'',
          m_messageType =
            (if truthy (sv_templateId validated) then ''template''
             else if truthy (sv_mediaUrl validated) then ''image'' else ''text''),
          m_whatsappMessageId = whatsappMessageId,
          m_fromNumber = sc_fromNumber ctx,
          m_toNumber = sc_toNumber ctx,
          m_text = orNull (sv_text validated),
          m_mediaUrl = orNull (sv_mediaUrl validated),
          m_mediaMimeType = None,
          m_mediaCaption = None,
          m_templateId = orNull (sv_templateId validated),
          m_status = status,
          m_errorCode = strOrNull errorCode,
          m_errorMessage = strOrNull errorMessage,
          m_sentAt = Some (e_now env),
          m_deliveredAt = None,
          m_readAt = None,
          m_createdAt = e_now env\<rparr>)"

definition sendAuditEntry :: "request \<Rightarrow> sendContext \<Rightarrow> sendOutcome \<Rightarrow> auditLog" where
  "sendAuditEntry rq ctx outcome =
     (let (whatsappMessageId, status, errorCode, errorMessage) = sendResult outcome
      in \<lparr>al_accountId = c_accountId (sc_conversation ctx),
          al_sessionId = Some (s_id (sc_session ctx)),
          al_action = ''message_send'',
          al_status = (if status = ''failed'' then ''failure'' else ''success''),
          al_description = None,
          al_details = None,
          al_errorCode = strOrNull errorCode,
          al_errorMessage = strOrNull errorMessage,
          al_userId = Some (cl_userId (sc_caller ctx)),
          al_ipAddress = ipAddress rq,
          al_userAgent = userAgent rq\<rparr>)"

text \<open>
  Lines 262 to 319: the message row, the conversation and session updates, the audit
  entry and the 201 response. A throwing audit write leaves the earlier writes in place
  and is answered by the outer \<open>catch\<close>.
\<close>

definition sendRecord ::
  "env \<Rightarrow> store \<Rightarrow> request \<Rightarrow> sendContext \<Rightarrow> sendOutcome \<Rightarrow> response \<times> store" where
  "sendRecord env st rq ctx outcome =
     (let msg = outboundMessage env st ctx outcome;
          st1 = st\<lparr>whatsappMessage := whatsappMessage st @ [msg], nextId := nextId st + 1\<rparr>;
          st2 = st1\<lparr>whatsappConversation :=
                  map (\<lambda>c. if c_id c = sv_conversationId (sc_validated ctx)
                           then c\<lparr>c_lastMessageAt := Some (e_now env),
                                  c_lastDirection := Some ''out''\<rparr>
                           else c)
                      (whatsappConversation st1)\<rparr>;
          st3 = st2\<lparr>whatsappSession :=
                  map (\<lambda>s. if s_id s = s_id (sc_session ctx)
                           then s\<lparr>s_dailySentCount := s_dailySentCount s + 1,
                                  s_lastSeenAt := Some (e_now env)\<rparr>
                           else s)
                      (whatsappSession st2)\<rparr>
      in if e_auditWriteFails env then (Failure 500 ''Failed to send message'', st3)
         else (Reply 201 (PMessage msg), createAuditLog st3 (sendAuditEntry rq ctx outcome)))"

definition messages_send_POST ::
  "env \<Rightarrow> store \<Rightarrow> request \<Rightarrow> sendBody \<Rightarrow> sendOutcome \<Rightarrow> response \<times> store" where
  "messages_send_POST env st rq body outcome =
     (case sendResolve env st rq body of
        Inl early \<Rightarrow> (early, st)
      | Inr ctx \<Rightarrow> sendRecord env st rq ctx outcome)"

section \<open>Session status: GET /api/whatsapp/sessions/status/[sessionId]\<close>

text \<open>The four fields of \<open>statusResponse.data\<close> that the handler reads.\<close>

record wahaInstance =
  wi_state :: "string option"
  wi_status :: "string option"
  wi_meUser :: "string option"
  wi_phoneNumber :: "string option"

text \<open>
  \<open>polled\<close> is \<open>None\<close> when \<open>axios.get\<close> throws. The response repeats the
  \<open>lastSyncAt\<close> and \<open>lastSeenAt\<close> of the row as it was read.
\<close>

definition sessions_status_GET ::
  "env \<Rightarrow> store \<Rightarrow> request \<Rightarrow> ident \<Rightarrow> wahaInstance option \<Rightarrow> response \<times> store" where
  "sessions_status_GET env st rq sessionId polled =
     (case requireModuleAccess rq ''marketing'' of
        Inl licenseError \<Rightarrow> (handleLicenseError licenseError, st)
      | Inr who \<Rightarrow>
     (case findSession st sessionId of
        None \<Rightarrow> (Failure 404 ''Session not found'', st)
      | Some sess \<Rightarrow>
     (case findAccount st (s_accountId sess) of
        None \<Rightarrow> (Failure 500 ''Failed to check status'', st)
      | Some acct \<Rightarrow>
     if a_tenantId acct \<noteq> cl_tenantId who then (Failure 403 ''Unauthorized'', st)
     else
     (case (if truthy (a_wahaBaseUrl acct) \<and> truthy (a_wahaApiKey acct)
               \<and> truthy (s_providerSessionId sess) then polled else None) of
        None \<Rightarrow>
          (Reply 200 (PSessionStatus (s_status sess) (s_phoneNumber sess)
                        (s_lastSyncAt sess) (s_lastSeenAt sess)), st)
      | Some inst \<Rightarrow>
          (let wahaState = (case orElse (orElse (wi_state inst) (wi_status inst))
                                   (Some ''DISCONNECTED'') of
                              None \<Rightarrow> [] | Some w \<Rightarrow> w);
               newStatus = (if wahaState = ''CONNECTED'' \<or> wahaState = ''connected''
                            then ''connected'' else ''pending_qr'');
               phoneNumber = orElse (orElse (wi_meUser inst) (wi_phoneNumber inst))
                                    (s_phoneNumber sess);
               st' = (if newStatus \<noteq> s_status sess \<or> phoneNumber \<noteq> s_phoneNumber sess
                      then st\<lparr>whatsappSession :=
                             map (\<lambda>s. if s_id s = sessionId
                                      then s\<lparr>s_status := newStatus,
                                             s_phoneNumber := phoneNumber,
                                             s_lastSyncAt := Some (e_now env),
                                             s_lastSeenAt :=
                                               (if newStatus = ''connected''
                                                then Some (e_now env)
                                                else s_lastSeenAt sess)\<rparr>
                                      else s)
                                 (whatsappSession st)\<rparr>
                      else st)
           in (Reply 200 (PSessionStatus newStatus phoneNumber
                            (s_lastSyncAt sess) (s_lastSeenAt sess)), st'))))))"

section \<open>Inbound webhook: POST /api/whatsapp/webhooks/message\<close>

record mediaData =
  md_url :: "string option"
  md_mimeType :: "string option"
  md_caption :: "string option"

record messageData =
  d_from :: "string option"
  d_fromNumber :: "string option"
  d_body :: "string option"
  d_text :: "string option"
  d_type :: "string option"
  d_id :: "string option"
  d_messageId :: "string option"
  d_timestamp :: "int option"
  d_mediaUrl :: "string option"
  d_mediaMimeType :: "string option"
  d_mediaCaption :: "string option"
  d_media :: "mediaData option"

record messageBody =
  mb_instance :: "string option"
  mb_data :: "messageData option"

text \<open>\<open>data.media?.url\<close> and its two siblings.\<close>

definition mediaField :: "(mediaData \<Rightarrow> string option) \<Rightarrow> messageData \<Rightarrow> string option" where
  "mediaField f d = (case d_media d of None \<Rightarrow> None | Some md \<Rightarrow> f md)"

definition strOr :: "string option \<Rightarrow> string \<Rightarrow> string" where
  "strOr a d = (case a of None \<Rightarrow> d | Some s \<Rightarrow> if s = [] then d else s)"

text \<open>Lines 45 to 74: find or create the contact; the result is the contact's id.\<close>

definition resolveContact :: "env \<Rightarrow> store \<Rightarrow> ident \<Rightarrow> string \<Rightarrow> ident \<times> store" where
  "resolveContact env st tenant fromNumber =
     (case find (\<lambda>i. ci_whatsappNumber i = fromNumber) (whatsappContactIdentity st) of
        Some contactIdentity \<Rightarrow> (ci_contactId contactIdentity, st)
      | None \<Rightarrow>
          (let person = \<lparr>ct_id = newId st, ct_tenantId = tenant, ct_name = fromNumber,
                         ct_email = [], ct_phone = fromNumber, ct_type = ''lead'',
                         ct_status = ''active'', ct_source = ''whatsapp''\<rparr>;
               st1 = st\<lparr>contactTable := contactTable st @ [person], nextId := nextId st + 1\<rparr>;
               contactIdentity = \<lparr>ci_id = newId st1, ci_contactId = ct_id person,
                                  ci_whatsappNumber = fromNumber, ci_verified = True,
                                  ci_verificationDate = Some (e_now env)\<rparr>;
               st2 = st1\<lparr>whatsappContactIdentity := whatsappContactIdentity st1 @ [contactIdentity],
                         nextId := nextId st1 + 1\<rparr>
           in (ci_contactId contactIdentity, st2)))"

text \<open>Lines 76 to 95: find or create the conversation of the pair.\<close>

definition resolveConversation :: "store \<Rightarrow> session \<Rightarrow> ident \<Rightarrow> conversation \<times> store" where
  "resolveConversation st sess contactId =
     (case find (\<lambda>c. c_accountId c = s_accountId sess \<and> c_contactId c = contactId)
                (whatsappConversation st) of
        Some conversation \<Rightarrow> (conversation, st)
      | None \<Rightarrow>
          (let conversation = \<lparr>c_id = newId st, c_accountId = s_accountId sess,
                               c_contactId = contactId, c_sessionId = Some (s_id sess),
                               c_status = ''open'', c_lastMessageAt = None,
                               c_lastDirection = None, c_unreadCount = 0, c_ticketId = None\<rparr>
           in (conversation,
               st\<lparr>whatsappConversation := whatsappConversation st @ [conversation],
                  nextId := nextId st + 1\<rparr>)))"

text \<open>
  Lines 45 to 74 await the store three times: the lookup of the identity,
  \<open>contact.create\<close> and \<open>whatsappContactIdentity.create\<close>. Another delivery can
  run between two awaits, so a delivery resolving its contact is at one of these points:
  before the lookup, before the contact create, before the identity create (holding the
  id of its contact), done with its contact's id, or stopped by a refused create.
\<close>

datatype progress =
    AtLookup
  | AtCreateContact
  | AtCreateIdentity ident
  | Resolved ident
  | Refused

text \<open>
  One await of a delivery from tenant \<open>tenant\<close> and number \<open>fromNumber\<close>.
  \<open>uniqueNumber\<close> says whether the store has the unique key on
  \<open>whatsappNumber\<close> that \<open>findUnique\<close> on that column asks for: with it, the create
  of a second identity for a number throws.
\<close>

fun advance ::
  "env \<Rightarrow> bool \<Rightarrow> ident \<Rightarrow> string \<Rightarrow> progress \<times> store \<Rightarrow> progress \<times> store" where
  "advance env uniqueNumber tenant fromNumber (AtLookup, st) =
     (case find (\<lambda>i. ci_whatsappNumber i = fromNumber) (whatsappContactIdentity st) of
        Some contactIdentity \<Rightarrow> (Resolved (ci_contactId contactIdentity), st)
      | None \<Rightarrow> (AtCreateContact, st))"
| "advance env uniqueNumber tenant fromNumber (AtCreateContact, st) =
     (AtCreateIdentity (newId st),
      st\<lparr>contactTable := contactTable st @
             [\<lparr>ct_id = newId st, ct_tenantId = tenant, ct_name = fromNumber,
               ct_email = [], ct_phone = fromNumber, ct_type = ''lead'',
               ct_status = ''active'', ct_source = ''whatsapp''\<rparr>],
         nextId := nextId st + 1\<rparr>)"
| "advance env uniqueNumber tenant fromNumber (AtCreateIdentity contactId, st) =
     (if uniqueNumber
         \<and> find (\<lambda>i. ci_whatsappNumber i = fromNumber) (whatsappContactIdentity st) \<noteq> None
      then (Refused, st)
      else (Resolved contactId,
            st\<lparr>whatsappContactIdentity := whatsappContactIdentity st @
                   [\<lparr>ci_id = newId st, ci_contactId = contactId,
                     ci_whatsappNumber = fromNumber, ci_verified = True,
                     ci_verificationDate = Some (e_now env)\<rparr>],
               nextId := nextId st + 1\<rparr>))"
| "advance env uniqueNumber tenant fromNumber (Resolved contactId, st) = (Resolved contactId, st)"
| "advance env uniqueNumber tenant fromNumber (Refused, st) = (Refused, st)"

text \<open>
  Two deliveries of the same number, the first from tenant \<open>tenantA\<close> and the second
  from \<open>tenantB\<close>, sharing the store. The schedule says at each await which of the
  two goes on: \<open>True\<close> the first, \<open>False\<close> the second.
\<close>

fun interleave ::
  "env \<Rightarrow> bool \<Rightarrow> ident \<Rightarrow> ident \<Rightarrow> string \<Rightarrow> bool list
    \<Rightarrow> progress \<times> progress \<times> store \<Rightarrow> progress \<times> progress \<times> store" where
  "interleave env uniqueNumber tenantA tenantB fromNumber [] state = state"
| "interleave env uniqueNumber tenantA tenantB fromNumber (first # schedule) (a, b, st) =
     (if first
      then interleave env uniqueNumber tenantA tenantB fromNumber schedule
             (fst (advance env uniqueNumber tenantA fromNumber (a, st)), b,
              snd (advance env uniqueNumber tenantA fromNumber (a, st)))
      else interleave env uniqueNumber tenantA tenantB fromNumber schedule
             (a, fst (advance env uniqueNumber tenantB fromNumber (b, st)),
              snd (advance env uniqueNumber tenantB fromNumber (b, st))))"

fun finished :: "progress \<Rightarrow> bool" where
  "finished (Resolved contactId) = True"
| "finished Refused = True"
| "finished AtLookup = False"
| "finished AtCreateContact = False"
| "finished (AtCreateIdentity contactId) = False"

definition inboundMessage :: "store \<Rightarrow> session \<Rightarrow> conversation \<Rightarrow> messageData \<Rightarrow> string \<Rightarrow> instant \<Rightarrow> message" where
  "inboundMessage st sess conversation d fromNumber timestamp =
     \<lparr>m_id = newId st,
      m_conversationId = c_id conversation,
      m_sessionId = s_id sess,
      m_employeeId = None,
      m_direction = ''in'',
      m_messageType = strOr (d_type d) ''text'',
      m_whatsappMessageId = strOr (orElse (d_id d) (d_messageId d)) [],
      m_fromNumber = fromNumber,
      m_toNumber = strOr (s_phoneNumber sess) [],
      m_text = strOrNull (strOr (orElse (d_body d) (d_text d)) []),
      m_mediaUrl = orNull (orElse (d_mediaUrl d) (mediaField md_url d)),
      m_mediaMimeType = orNull (orElse (d_mediaMimeType d) (mediaField md_mimeType d)),
      m_mediaCaption = orNull (orElse (d_mediaCaption d) (mediaField md_caption d)),
      m_templateId = None,
      m_status = ''delivered'',
      m_errorCode = None,
      m_errorMessage = None,
      m_sentAt = None,
      m_deliveredAt = None,
      m_readAt = None,
      m_createdAt = timestamp\<rparr>"

definition receiveAuditEntry :: "session \<Rightarrow> messageData \<Rightarrow> string \<Rightarrow> auditLog" where
  "receiveAuditEntry sess d fromNumber =
     \<lparr>al_accountId = s_accountId sess,
      al_sessionId = Some (s_id sess),
      al_action = ''message_receive'',
      al_status = ''success'',
      al_description = Some (''Received message from '' @ fromNumber),
      al_details = Some (JObj [(''messageType'', JStr (strOr (d_type d) ''text'')),
                               (''hasMedia'', JBool (truthy (d_mediaUrl d)))]),
      al_errorCode = None,
      al_errorMessage = None,
      al_userId = None,
      al_ipAddress = None,
      al_userAgent = None\<rparr>"

text \<open>
  The tenant of a new contact is \<open>session.account.tenantId\<close>, read only when the
  contact is created; with the account row missing that read throws before any write.
  The message row is created with the event's date as \<open>createdAt\<close>: an Invalid
  Date makes that create throw, after the contact and the conversation have been
  resolved. \<open>al_details\<close> holds the object that \<open>JSON.stringify\<close> serialises.
\<close>

definition webhooks_message_POST :: "env \<Rightarrow> store \<Rightarrow> messageBody \<Rightarrow> response \<times> store" where
  "webhooks_message_POST env st body =
     (case mb_data body of
        None \<Rightarrow> (Failure 400 ''Invalid webhook payload'', st)
      | Some d \<Rightarrow>
     if \<not> truthy (mb_instance body) then (Failure 400 ''Invalid webhook payload'', st)
     else
     (case find (\<lambda>s. s_providerSessionId s = mb_instance body) (whatsappSession st) of
        None \<Rightarrow> (Failure 404 ''Session not found'', st)
      | Some sess \<Rightarrow>
     (let fromNumber = strOr (orElse (d_from d) (d_fromNumber d)) [];
          timestamp = eventTime (e_now env) (d_timestamp d)
      in
      if fromNumber = [] then (Failure 400 ''Missing from number'', st)
      else if find (\<lambda>i. ci_whatsappNumber i = fromNumber) (whatsappContactIdentity st) = None
              \<and> findAccount st (s_accountId sess) = None
      then (Failure 500 ''Webhook processing failed'', st)
      else
        (let tenant = (case findAccount st (s_accountId sess) of
                         None \<Rightarrow> [] | Some acct \<Rightarrow> a_tenantId acct);
             (contactId, st1) = resolveContact env st tenant fromNumber;
             (conversation, st2) = resolveConversation st1 sess contactId
         in case timestamp of
              InvalidDate \<Rightarrow> (Failure 500 ''Webhook processing failed'', st2)
            | ValidDate createdAt \<Rightarrow>
         (let msg = inboundMessage st2 sess conversation d fromNumber createdAt;
              st3 = st2\<lparr>whatsappMessage := whatsappMessage st2 @ [msg],
                        nextId := nextId st2 + 1\<rparr>;
              st4 = st3\<lparr>whatsappConversation :=
                      map (\<lambda>c. if c_id c = c_id conversation
                               then c\<lparr>c_lastMessageAt := Some createdAt,
                                      c_lastDirection := Some ''in'',
                                      c_unreadCount := c_unreadCount c + 1\<rparr>
                               else c)
                          (whatsappConversation st3)\<rparr>;
              st5 = st4\<lparr>whatsappSession :=
                      map (\<lambda>s. if s_id s = s_id sess
                               then s\<lparr>s_dailyRecvCount := s_dailyRecvCount s + 1,
                                      s_lastSeenAt := Some (e_now env)\<rparr>
                               else s)
                          (whatsappSession st4)\<rparr>
          in if e_auditWriteFails env then (Failure 500 ''Webhook processing failed'', st5)
             else (Reply 200 PSuccess,
                   createAuditLog st5 (receiveAuditEntry sess d fromNumber)))))))"

section \<open>Sessions: POST /api/whatsapp/sessions, GET /api/whatsapp/sessions/[accountId]\<close>

record createSessionBody =
  cs_accountId :: "string option"
  cs_employeeId :: "string option"
  cs_deviceName :: "string option"

text \<open>
  The two provider calls of session creation: \<open>QrIssued qr qrcode\<close> carries the two
  fields of \<open>qrResponse.data\<close>; \<open>CreateFailed message errorMessage\<close> carries
  \<open>error.response?.data?.message\<close> and \<open>error.message\<close> of whichever call threw.
\<close>

datatype createOutcome =
    QrIssued "string option" "string option"
  | CreateFailed "string option" "string option"

definition intToString :: "int \<Rightarrow> string" where
  "intToString i = (if i < 0 then ''-'' @ numToString (nat (- i)) else numToString (nat i))"

text \<open>
  \<open>isActive\<close>, the counters and the other columns that \<open>create\<close> does not name
  take the defaults of the schema, which is not among the sources: active, zero, null.
\<close>

definition sessions_POST ::
  "env \<Rightarrow> store \<Rightarrow> request \<Rightarrow> createSessionBody \<Rightarrow> createOutcome \<Rightarrow> response \<times> store" where
  "sessions_POST env st rq body outcome =
     (case requireModuleAccess rq ''marketing'' of
        Inl licenseError \<Rightarrow> (handleLicenseError licenseError, st)
      | Inr who \<Rightarrow>
     (case cs_accountId body of
        None \<Rightarrow> (Failure 400 ''Validation error'', st)
      | Some accountId \<Rightarrow>
     if length accountId < 1 then (Failure 400 ''Validation error'', st)
     else
     (case findAccount st accountId of
        None \<Rightarrow> (Failure 403 ''Unauthorized'', st)
      | Some acct \<Rightarrow>
     if a_tenantId acct \<noteq> cl_tenantId who then (Failure 403 ''Unauthorized'', st)
     else if \<not> truthy (a_wahaBaseUrl acct) \<or> \<not> truthy (a_wahaApiKey acct)
     then (Failure 400 ''WAHA configuration incomplete'', st)
     else
     (let sessionName = cl_tenantId who @ ''-'' @ strOr (cs_employeeId body) ''shared''
                        @ ''-'' @ intToString (e_now env)
      in
      case outcome of
        CreateFailed responseMessage errorMessage \<Rightarrow>
          (Failure 500 (''Failed to create WAHA session: ''
                        @ strOr (orElse responseMessage errorMessage)
                                ''Failed to create WAHA session''), st)
      | QrIssued qr qrcode \<Rightarrow>
          (let sess = \<lparr>s_id = newId st, s_accountId = accountId,
                       s_employeeId = orNull (cs_employeeId body),
                       s_providerSessionId = Some sessionName,
                       s_qrCodeUrl = Some (strOr (orElse qr qrcode) []),
                       s_status = ''pending_qr'', s_isActive = True,
                       s_deviceName = Some (strOr (cs_deviceName body) ''Device''),
                       s_phoneNumber = None, s_dailySentCount = 0, s_dailyRecvCount = 0,
                       s_lastSyncAt = None, s_lastSeenAt = None\<rparr>;
               st1 = st\<lparr>whatsappSession := whatsappSession st @ [sess],
                         nextId := nextId st + 1\<rparr>
           in if e_auditWriteFails env then (Failure 500 ''Failed to create session'', st1)
              else (Reply 201 (PSession sess),
                    createAuditLog st1
                      \<lparr>al_accountId = accountId, al_sessionId = Some (s_id sess),
                       al_action = ''session_create'', al_status = ''success'',
                       al_description = Some (''Created session '' @ sessionName),
                       al_details = None, al_errorCode = None, al_errorMessage = None,
                       al_userId = Some (cl_userId who), al_ipAddress = ipAddress rq,
                       al_userAgent = userAgent rq\<rparr>))))))"

text \<open>The list is ordered by creation time, newest first.\<close>

definition sessions_accountId_GET :: "store \<Rightarrow> request \<Rightarrow> ident \<Rightarrow> response \<times> store" where
  "sessions_accountId_GET st rq accountId =
     (case requireModuleAccess rq ''marketing'' of
        Inl licenseError \<Rightarrow> (handleLicenseError licenseError, st)
      | Inr who \<Rightarrow>
     (case findAccount st accountId of
        None \<Rightarrow> (Failure 403 ''Unauthorized'', st)
      | Some acct \<Rightarrow>
     if a_tenantId acct \<noteq> cl_tenantId who then (Failure 403 ''Unauthorized'', st)
     else (Reply 200 (PSessions (rev (filter (\<lambda>s. s_accountId s = accountId)
                                              (whatsappSession st)))), st)))"

section \<open>Conversations: GET and PATCH /api/whatsapp/conversations/[conversationId]\<close>

text \<open>
  The GET handler loads the account with \<open>select: { id, businessName, status }\<close>, so the
  object it compares has no \<open>tenantId\<close>: \<open>conversation.account.tenantId\<close> is
  \<open>undefined\<close>, written \<open>None\<close> here.
\<close>

definition conversations_id_GET :: "store \<Rightarrow> request \<Rightarrow> ident \<Rightarrow> response \<times> store" where
  "conversations_id_GET st rq conversationId =
     (case requireModuleAccess rq ''marketing'' of
        Inl licenseError \<Rightarrow> (handleLicenseError licenseError, st)
      | Inr who \<Rightarrow>
     (case findConversation st conversationId of
        None \<Rightarrow> (Failure 404 ''Conversation not found'', st)
      | Some conversation \<Rightarrow>
     (case findAccount st (c_accountId conversation) of
        None \<Rightarrow> (Failure 500 ''Failed to fetch conversation'', st)
      | Some acct \<Rightarrow>
     (let selectedTenantId = (None :: ident option) in
      if selectedTenantId \<noteq> Some (cl_tenantId who) then (Failure 403 ''Unauthorized'', st)
      else (Reply 200 (PConversation conversation), st)))))"

record updateConversationBody =
  uc_sessionId :: "string option"
  uc_ticketId :: "string option"
  uc_status :: "string option"

definition conversations_id_PATCH ::
  "store \<Rightarrow> request \<Rightarrow> ident \<Rightarrow> updateConversationBody \<Rightarrow> response \<times> store" where
  "conversations_id_PATCH st rq conversationId body =
     (case requireModuleAccess rq ''marketing'' of
        Inl licenseError \<Rightarrow> (handleLicenseError licenseError, st)
      | Inr who \<Rightarrow>
     if (case uc_status body of
           None \<Rightarrow> False | Some v \<Rightarrow> v \<notin> set [''open'', ''closed'', ''archived''])
     then (Failure 400 ''Validation error'', st)
     else
     (case findConversation st conversationId of
        None \<Rightarrow> (Failure 404 ''Conversation not found'', st)
      | Some conversation \<Rightarrow>
     (case findAccount st (c_accountId conversation) of
        None \<Rightarrow> (Failure 500 ''Failed to update conversation'', st)
      | Some acct \<Rightarrow>
     if a_tenantId acct \<noteq> cl_tenantId who then (Failure 403 ''Unauthorized'', st)
     else if truthy (uc_sessionId body)
             \<and> (case findSession st (strOr (uc_sessionId body) []) of
                   None \<Rightarrow> True
                 | Some sess \<Rightarrow> s_accountId sess \<noteq> c_accountId conversation)
     then (Failure 400 ''Invalid session'', st)
     else
       (let patch = (\<lambda>c. c\<lparr>c_sessionId := (case uc_sessionId body of
                                               None \<Rightarrow> c_sessionId c | Some v \<Rightarrow> Some v),
                            c_ticketId := (case uc_ticketId body of
                                              None \<Rightarrow> c_ticketId c | Some v \<Rightarrow> Some v),
                            c_status := (case uc_status body of
                                            None \<Rightarrow> c_status c | Some v \<Rightarrow> v)\<rparr>)
        in (Reply 200 (PConversation (patch conversation)),
            st\<lparr>whatsappConversation :=
                 map (\<lambda>c. if c_id c = conversationId then patch c else c)
                     (whatsappConversation st)\<rparr>)))))"

section \<open>Message history: GET /api/whatsapp/conversations/[conversationId]/messages\<close>

text \<open>
  \<open>limit\<close> and \<open>offset\<close> are the two query parameters after \<open>parseInt\<close> and
  its defaults. The page is taken newest first and returned oldest first.
\<close>

definition conversation_messages_GET ::
  "store \<Rightarrow> request \<Rightarrow> ident \<Rightarrow> nat \<Rightarrow> nat \<Rightarrow> response \<times> store" where
  "conversation_messages_GET st rq conversationId limit offset =
     (case requireModuleAccess rq ''marketing'' of
        Inl licenseError \<Rightarrow> (handleLicenseError licenseError, st)
      | Inr who \<Rightarrow>
     (case findConversation st conversationId of
        None \<Rightarrow> (Failure 404 ''Conversation not found'', st)
      | Some conversation \<Rightarrow>
     (case findAccount st (c_accountId conversation) of
        None \<Rightarrow> (Failure 500 ''Failed to fetch messages'', st)
      | Some acct \<Rightarrow>
     if a_tenantId acct \<noteq> cl_tenantId who then (Failure 403 ''Unauthorized'', st)
     else
       (let mine = filter (\<lambda>m. m_conversationId m = conversationId) (whatsappMessage st);
            page = take (min limit 100) (drop offset (rev (sort_key m_createdAt mine)))
        in (Reply 200 (PMessages (rev page) (length mine) limit offset), st)))))"

section \<open>Templates: GET and POST /api/whatsapp/templates\<close>

definition templates_GET ::
  "store \<Rightarrow> request \<Rightarrow> string option \<Rightarrow> string option \<Rightarrow> response \<times> store" where
  "templates_GET st rq accountId category =
     (case requireModuleAccess rq ''marketing'' of
        Inl licenseError \<Rightarrow> (handleLicenseError licenseError, st)
      | Inr who \<Rightarrow>
     if \<not> truthy accountId then (Failure 400 ''accountId required'', st)
     else
     (case findAccount st (strOr accountId []) of
        None \<Rightarrow> (Failure 403 ''Unauthorized'', st)
      | Some acct \<Rightarrow>
     if a_tenantId acct \<noteq> cl_tenantId who then (Failure 403 ''Unauthorized'', st)
     else
       (Reply 200 (PTemplates (rev (filter
           (\<lambda>t. Some (t_accountId t) = accountId
                \<and> (if truthy category then Some (t_category t) = category else True))
           (whatsappTemplate st)))), st)))"

record createTemplateBody =
  tb_accountId :: "string option"
  tb_name :: "string option"
  tb_category :: "string option"
  tb_languageCode :: "string option"
  tb_bodyTemplate :: "string option"
  tb_headerType :: "string option"
  tb_headerContent :: "string option"
  tb_footerContent :: "string option"
  tb_buttons :: "string option"

text \<open>\<open>createTemplateSchema.parse\<close> succeeds.\<close>

definition createTemplateSchema :: "createTemplateBody \<Rightarrow> bool" where
  "createTemplateSchema b =
     (1 \<le> length (strOr (tb_accountId b) []) \<and> 1 \<le> length (strOr (tb_name b) [])
      \<and> 1 \<le> length (strOr (tb_bodyTemplate b) [])
      \<and> (case tb_category b of None \<Rightarrow> True
          | Some v \<Rightarrow> v \<in> set [''welcome'', ''order_update'', ''support'', ''delivery'',
                                 ''payment'', ''custom''])
      \<and> (case tb_headerType b of None \<Rightarrow> True
          | Some v \<Rightarrow> v \<in> set [''text'', ''image'', ''video'', ''document'']))"

definition templates_POST ::
  "env \<Rightarrow> store \<Rightarrow> request \<Rightarrow> createTemplateBody \<Rightarrow> response \<times> store" where
  "templates_POST env st rq body =
     (case requireModuleAccess rq ''marketing'' of
        Inl licenseError \<Rightarrow> (handleLicenseError licenseError, st)
      | Inr who \<Rightarrow>
     if \<not> createTemplateSchema body then (Failure 400 ''Validation error'', st)
     else
     (case findAccount st (strOr (tb_accountId body) []) of
        None \<Rightarrow> (Failure 403 ''Unauthorized'', st)
      | Some acct \<Rightarrow>
     if a_tenantId acct \<noteq> cl_tenantId who then (Failure 403 ''Unauthorized'', st)
     else
       (let tpl = \<lparr>t_id = newId st, t_accountId = strOr (tb_accountId body) [],
                   t_name = strOr (tb_name body) [],
                   t_category = strOr (tb_category body) ''custom'',
                   t_languageCode = strOr (tb_languageCode body) ''en'',
                   t_bodyTemplate = strOr (tb_bodyTemplate body) [],
                   t_headerType = orNull (tb_headerType body),
                   t_headerContent = orNull (tb_headerContent body),
                   t_footerContent = orNull (tb_footerContent body),
                   t_buttons = orNull (tb_buttons body),
                   t_createdById = cl_userId who\<rparr>;
            st1 = st\<lparr>whatsappTemplate := whatsappTemplate st @ [tpl],
                      nextId := nextId st + 1\<rparr>
        in if e_auditWriteFails env then (Failure 500 ''Failed to create template'', st1)
           else (Reply 201 (PTemplate tpl),
                 createAuditLog st1
                   \<lparr>al_accountId = t_accountId tpl, al_sessionId = None,
                    al_action = ''template_create'', al_status = ''success'',
                    al_description = Some (''Created template '' @ t_name tpl),
                    al_details = None, al_errorCode = None, al_errorMessage = None,
                    al_userId = Some (cl_userId who), al_ipAddress = ipAddress rq,
                    al_userAgent = userAgent rq\<rparr>))))"

section \<open>Accounts: GET and POST /api/whatsapp/accounts\<close>

text \<open>
  An account row as the JavaScript object the ORM returns: one key per column. Instants
  are written as numbers.
\<close>

definition optStr :: "string option \<Rightarrow> json" where
  "optStr v = (case v of None \<Rightarrow> JNull | Some s \<Rightarrow> JStr s)"

definition optInstant :: "instant option \<Rightarrow> json" where
  "optInstant v = (case v of None \<Rightarrow> JNull | Some t \<Rightarrow> JNum t)"

definition accountObject :: "account \<Rightarrow> (string \<times> json) list" where
  "accountObject a =
     [(''id'', JStr (a_id a)), (''tenantId'', JStr (a_tenantId a)),
      (''deploymentType'', optStr (a_deploymentType a)),
      (''channelType'', optStr (a_channelType a)),
      (''wahaBaseUrl'', optStr (a_wahaBaseUrl a)),
      (''wahaApiKey'', optStr (a_wahaApiKey a)),
      (''internalWahaUrl'', optStr (a_internalWahaUrl a)),
      (''internalApiKey'', optStr (a_internalApiKey a)),
      (''accessToken'', optStr (a_accessToken a)),
      (''metaAppSecret'', optStr (a_metaAppSecret a)),
      (''businessName'', optStr (a_businessName a)),
      (''primaryPhone'', optStr (a_primaryPhone a)),
      (''isWebConnected'', JBool (a_isWebConnected a)),
      (''status'', JStr (a_status a)),
      (''errorMessage'', optStr (a_errorMessage a))] @ a_other a"

definition employeeObject :: "store \<Rightarrow> ident option \<Rightarrow> json" where
  "employeeObject st employeeId =
     (case employeeId of
        None \<Rightarrow> JNull
      | Some e \<Rightarrow>
          (case find (\<lambda>u. u_id u = e) (userTable st) of
             None \<Rightarrow> JNull
           | Some u \<Rightarrow> JObj [(''id'', JStr (u_id u)), (''name'', JStr (u_name u)),
                              (''email'', JStr (u_email u))]))"

definition sessionObject :: "store \<Rightarrow> session \<Rightarrow> json" where
  "sessionObject st s =
     JObj [(''id'', JStr (s_id s)), (''accountId'', JStr (s_accountId s)),
           (''employeeId'', optStr (s_employeeId s)),
           (''providerSessionId'', optStr (s_providerSessionId s)),
           (''qrCodeUrl'', optStr (s_qrCodeUrl s)),
           (''status'', JStr (s_status s)), (''isActive'', JBool (s_isActive s)),
           (''deviceName'', optStr (s_deviceName s)),
           (''phoneNumber'', optStr (s_phoneNumber s)),
           (''dailySentCount'', JNum (int (s_dailySentCount s))),
           (''dailyRecvCount'', JNum (int (s_dailyRecvCount s))),
           (''lastSyncAt'', optInstant (s_lastSyncAt s)),
           (''lastSeenAt'', optInstant (s_lastSeenAt s)),
           (''employee'', employeeObject st (s_employeeId s))]"

definition templateObject :: "template \<Rightarrow> json" where
  "templateObject t =
     JObj [(''id'', JStr (t_id t)), (''accountId'', JStr (t_accountId t)),
           (''name'', JStr (t_name t)), (''category'', JStr (t_category t)),
           (''languageCode'', JStr (t_languageCode t)),
           (''bodyTemplate'', JStr (t_bodyTemplate t)),
           (''headerType'', optStr (t_headerType t)),
           (''headerContent'', optStr (t_headerContent t)),
           (''footerContent'', optStr (t_footerContent t)),
           (''buttons'', optStr (t_buttons t)),
           (''createdById'', JStr (t_createdById t))]"

text \<open>The account with the relations that \<open>include\<close> adds to it.\<close>

definition accountWithRelations :: "store \<Rightarrow> account \<Rightarrow> (string \<times> json) list" where
  "accountWithRelations st a =
     accountObject a @
     [(''sessions'', JArr (map (sessionObject st)
                            (filter (\<lambda>s. s_accountId s = a_id a) (whatsappSession st)))),
      (''templates'', JArr (map templateObject
                             (filter (\<lambda>t. t_accountId t = a_id a) (whatsappTemplate st)))),
      (''_count'', JObj [(''conversations'',
          JNum (int (length (filter (\<lambda>c. c_accountId c = a_id a)
                                    (whatsappConversation st)))))])]"

text \<open>
  \<open>const { wahaApiKey, internalApiKey, accessToken, metaAppSecret, internalWahaUrl,
  ...safeAccount } = account\<close>: the rest object has every key but the five.
\<close>

definition secretKeys :: "string list" where
  "secretKeys = [''wahaApiKey'', ''internalApiKey'', ''accessToken'', ''metaAppSecret'',
                 ''internalWahaUrl'']"

definition safeAccount :: "(string \<times> json) list \<Rightarrow> (string \<times> json) list" where
  "safeAccount obj = filter (\<lambda>kv. fst kv \<notin> set secretKeys) obj"

definition accounts_GET :: "store \<Rightarrow> request \<Rightarrow> response \<times> store" where
  "accounts_GET st rq =
     (case requireModuleAccess rq ''marketing'' of
        Inl licenseError \<Rightarrow> (handleLicenseError licenseError, st)
      | Inr who \<Rightarrow>
          (Reply 200 (PAccounts
             (map (\<lambda>a. safeAccount (accountWithRelations st a))
                  (rev (filter (\<lambda>a. a_tenantId a = cl_tenantId who) (whatsappAccount st))))),
           st))"

record createAccountBody =
  ab_deploymentType :: "string option"
  ab_channelType :: "string option"
  ab_wahaBaseUrl :: "string option"
  ab_wahaApiKey :: "string option"
  ab_businessName :: "string option"
  ab_primaryPhone :: "string option"

text \<open>\<open>createWhatsappAccountSchema.parse\<close> succeeds.\<close>

definition createWhatsappAccountSchema :: "(string \<Rightarrow> bool) \<Rightarrow> createAccountBody \<Rightarrow> bool" where
  "createWhatsappAccountSchema urlOk b =
     ((case ab_deploymentType b of None \<Rightarrow> True
       | Some v \<Rightarrow> v \<in> set [''payaid_hosted'', ''self_hosted''])
      \<and> (case ab_channelType b of None \<Rightarrow> True | Some v \<Rightarrow> v \<in> set [''web'', ''cloud''])
      \<and> (case ab_wahaBaseUrl b of None \<Rightarrow> True | Some u \<Rightarrow> urlOk u))"

text \<open>
  Lines 72 to 156 of the POST handler for a given yield of the call in line 72
  (\<open>Inl\<close>: a license error with its message, \<open>Inr\<close>: the caller). \<open>healthy\<close> says
  that the health request to the provider returned data.
\<close>

definition accounts_POST_resolved ::
  "env \<Rightarrow> store \<Rightarrow> string + caller \<Rightarrow> request \<Rightarrow> createAccountBody \<Rightarrow> bool
    \<Rightarrow> response \<times> store" where
  "accounts_POST_resolved env st access rq body healthy =
     (case access of
        Inl licenseError \<Rightarrow> (handleLicenseError licenseError, st)
      | Inr who \<Rightarrow>
     if \<not> createWhatsappAccountSchema (e_isUrl env) body
     then (Failure 400 ''Validation error'', st)
     else
     (let deploymentType = strOr (ab_deploymentType body) ''self_hosted'';
          channelType = (case ab_channelType body of None \<Rightarrow> ''web'' | Some v \<Rightarrow> v)
      in
      if deploymentType = ''self_hosted'' \<and> channelType \<noteq> ''web''
      then (Failure 400 ''Only web channel supported now'', st)
      else if deploymentType = ''self_hosted'' \<and> \<not> truthy (ab_wahaBaseUrl body)
      then (Failure 400 ''wahaBaseUrl required for self-hosted deployment'', st)
      else if deploymentType = ''self_hosted'' \<and> \<not> healthy
      then (Failure 400
              ''Failed to connect to WAHA server. Please check the URL and API key.'', st)
      else if deploymentType = ''payaid_hosted''
      then (Failure 400
              ''Please use the one-click setup at /dashboard/whatsapp/setup for automatic deployment'',
            st)
      else
        (let acct = \<lparr>a_id = newId st, a_tenantId = cl_tenantId who,
                     a_deploymentType = Some ''self_hosted'',
                     a_channelType = Some (if channelType = [] then ''web'' else channelType),
                     a_wahaBaseUrl = orNull (ab_wahaBaseUrl body),
                     a_wahaApiKey = orNull (ab_wahaApiKey body),
                     a_internalWahaUrl = None, a_internalApiKey = None,
                     a_accessToken = None, a_metaAppSecret = None,
                     a_businessName = orNull (ab_businessName body),
                     a_primaryPhone = orNull (ab_primaryPhone body),
                     a_isWebConnected = True, a_status = ''active'',
                     a_errorMessage = None, a_other = e_accountDefaults env\<rparr>;
             st1 = st\<lparr>whatsappAccount := whatsappAccount st @ [acct],
                       nextId := nextId st + 1\<rparr>
         in if e_auditWriteFails env
            then (Failure 500 ''Failed to create WhatsApp account'', st1)
            else (Reply 201 (PAccount (safeAccount (accountObject acct))),
                  createAuditLog st1
                    \<lparr>al_accountId = a_id acct, al_sessionId = None,
                     al_action = ''account_create'', al_status = ''success'',
                     al_description =
                       Some (''Created WAHA account at '' @ strOr (ab_wahaBaseUrl body) []),
                     al_details = None, al_errorCode = None, al_errorMessage = None,
                     al_userId = Some (cl_userId who), al_ipAddress = ipAddress rq,
                     al_userAgent = userAgent rq\<rparr>))))"

text \<open>
  The handler as the file has it. Line 72 calls \<open>requireWhatsAppAccess\<close>, an
  identifier that accounts/route.ts neither imports nor declares: evaluating it throws
  a ReferenceError, which is no \<open>ZodError\<close> and has no \<open>moduleId\<close>, so the
  \<open>catch\<close> block answers 500 before anything is read or written.
\<close>

definition accounts_POST ::
  "env \<Rightarrow> store \<Rightarrow> request \<Rightarrow> createAccountBody \<Rightarrow> bool \<Rightarrow> response \<times> store" where
  "accounts_POST env st rq body healthy = (Failure 500 ''Failed to create WhatsApp account'', st)"

section \<open>Operations\<close>

text \<open>
  One constructor per route, with the request and with what the provider answered where
  the route calls it.
\<close>

datatype operation =
    SessionCreate request createSessionBody createOutcome
  | SessionList request ident
  | SessionStatus request ident "wahaInstance option"
  | ConversationRead request ident
  | ConversationUpdate request ident updateConversationBody
  | MessageList request ident nat nat
  | Send request sendBody sendOutcome
  | TemplateRead request "string option" "string option"
  | TemplateCreate request createTemplateBody
  | AccountList request
  | AccountCreate request createAccountBody bool
  | InboundWebhook messageBody
  | StatusWebhook statusBody

fun perform :: "env \<Rightarrow> store \<Rightarrow> operation \<Rightarrow> response \<times> store" where
  "perform env st (SessionCreate rq body outcome) = sessions_POST env st rq body outcome"
| "perform env st (SessionList rq accountId) = sessions_accountId_GET st rq accountId"
| "perform env st (SessionStatus rq sessionId polled) =
     sessions_status_GET env st rq sessionId polled"
| "perform env st (ConversationRead rq conversationId) =
     conversations_id_GET st rq conversationId"
| "perform env st (ConversationUpdate rq conversationId body) =
     conversations_id_PATCH st rq conversationId body"
| "perform env st (MessageList rq conversationId limit offset) =
     conversation_messages_GET st rq conversationId limit offset"
| "perform env st (Send rq body outcome) = messages_send_POST env st rq body outcome"
| "perform env st (TemplateRead rq accountId category) = templates_GET st rq accountId category"
| "perform env st (TemplateCreate rq body) = templates_POST env st rq body"
| "perform env st (AccountList rq) = accounts_GET st rq"
| "perform env st (AccountCreate rq body healthy) = accounts_POST env st rq body healthy"
| "perform env st (InboundWebhook body) = webhooks_message_POST env st body"
| "perform env st (StatusWebhook body) = webhooks_status_POST env st body"

text \<open>Requests served one after the other, each in its own environment.\<close>

fun run :: "store \<Rightarrow> (env \<times> operation) list \<Rightarrow> store" where
  "run st [] = st"
| "run st ((env, op) # rest) = run (snd (perform env st op)) rest"

section \<open>Properties stated about the store and the operations\<close>

text \<open>The pairs (account, contact) of the conversation rows, one per row.\<close>

definition conversationKeys :: "store \<Rightarrow> (ident \<times> ident) list" where
  "conversationKeys st = map (\<lambda>c. (c_accountId c, c_contactId c)) (whatsappConversation st)"

definition uniqueConversations :: "store \<Rightarrow> bool" where
  "uniqueConversations st = distinct (conversationKeys st)"

text \<open>
  The account an account-scoped operation addresses: the account named by the request,
  or the account of the session or conversation it names.
\<close>

definition conversationAccount :: "store \<Rightarrow> ident \<Rightarrow> account option" where
  "conversationAccount st conversationId =
     (case findConversation st conversationId of
        None \<Rightarrow> None
      | Some c \<Rightarrow> findAccount st (c_accountId c))"

fun targetAccount :: "store \<Rightarrow> operation \<Rightarrow> account option" where
  "targetAccount st (SessionCreate rq body outcome) =
     (case cs_accountId body of None \<Rightarrow> None | Some a \<Rightarrow> findAccount st a)"
| "targetAccount st (SessionList rq accountId) = findAccount st accountId"
| "targetAccount st (SessionStatus rq sessionId polled) =
     (case findSession st sessionId of
        None \<Rightarrow> None | Some s \<Rightarrow> findAccount st (s_accountId s))"
| "targetAccount st (ConversationRead rq conversationId) = conversationAccount st conversationId"
| "targetAccount st (ConversationUpdate rq conversationId body) =
     conversationAccount st conversationId"
| "targetAccount st (MessageList rq conversationId limit offset) =
     conversationAccount st conversationId"
| "targetAccount st (Send rq body outcome) =
     (case sn_conversationId body of None \<Rightarrow> None | Some c \<Rightarrow> conversationAccount st c)"
| "targetAccount st (TemplateRead rq accountId category) =
     (case accountId of None \<Rightarrow> None | Some a \<Rightarrow> findAccount st a)"
| "targetAccount st (TemplateCreate rq body) =
     (case tb_accountId body of None \<Rightarrow> None | Some a \<Rightarrow> findAccount st a)"
| "targetAccount st (AccountList rq) = None"
| "targetAccount st (AccountCreate rq body healthy) = None"
| "targetAccount st (InboundWebhook body) = None"
| "targetAccount st (StatusWebhook body) = None"

fun operationRequest :: "operation \<Rightarrow> request option" where
  "operationRequest (SessionCreate rq body outcome) = Some rq"
| "operationRequest (SessionList rq accountId) = Some rq"
| "operationRequest (SessionStatus rq sessionId polled) = Some rq"
| "operationRequest (ConversationRead rq conversationId) = Some rq"
| "operationRequest (ConversationUpdate rq conversationId body) = Some rq"
| "operationRequest (MessageList rq conversationId limit offset) = Some rq"
| "operationRequest (Send rq body outcome) = Some rq"
| "operationRequest (TemplateRead rq accountId category) = Some rq"
| "operationRequest (TemplateCreate rq body) = Some rq"
| "operationRequest (AccountList rq) = Some rq"
| "operationRequest (AccountCreate rq body healthy) = Some rq"
| "operationRequest (InboundWebhook body) = None"
| "operationRequest (StatusWebhook body) = None"

text \<open>
  The request passes the input validation of its route: the zod schema, and for a send
  the check that there is something to send.
\<close>

fun wellFormed :: "env \<Rightarrow> operation \<Rightarrow> bool" where
  "wellFormed env (SessionCreate rq body outcome) = (1 \<le> length (strOr (cs_accountId body) []))"
| "wellFormed env (ConversationUpdate rq conversationId body) =
     (case uc_status body of
        None \<Rightarrow> True | Some v \<Rightarrow> v \<in> set [''open'', ''closed'', ''archived''])"
| "wellFormed env (Send rq body outcome) =
     (case sendMessageSchema (e_isUrl env) body of
        None \<Rightarrow> False
      | Some v \<Rightarrow> truthy (sv_text v) \<or> truthy (sv_mediaUrl v) \<or> truthy (sv_templateId v))"
| "wellFormed env (TemplateRead rq accountId category) = truthy accountId"
| "wellFormed env (TemplateCreate rq body) = createTemplateSchema body"
| "wellFormed env (SessionList rq accountId) = True"
| "wellFormed env (SessionStatus rq sessionId polled) = True"
| "wellFormed env (ConversationRead rq conversationId) = True"
| "wellFormed env (MessageList rq conversationId limit offset) = True"
| "wellFormed env (AccountList rq) = True"
| "wellFormed env (AccountCreate rq body healthy) =
     createWhatsappAccountSchema (e_isUrl env) body"
| "wellFormed env (InboundWebhook body) = True"
| "wellFormed env (StatusWebhook body) = True"

text \<open>
  The routes whose handler ends with the audit write, inside the handler's one
  \<open>try\<close> block: inbound webhook, send, session create and template create.
\<close>

fun appendsAudit :: "operation \<Rightarrow> bool" where
  "appendsAudit (InboundWebhook body) = True"
| "appendsAudit (Send rq body outcome) = True"
| "appendsAudit (SessionCreate rq body outcome) = True"
| "appendsAudit (TemplateCreate rq body) = True"
| "appendsAudit (SessionList rq accountId) = False"
| "appendsAudit (SessionStatus rq sessionId polled) = False"
| "appendsAudit (ConversationRead rq conversationId) = False"
| "appendsAudit (ConversationUpdate rq conversationId body) = False"
| "appendsAudit (MessageList rq conversationId limit offset) = False"
| "appendsAudit (TemplateRead rq accountId category) = False"
| "appendsAudit (AccountList rq) = False"
| "appendsAudit (StatusWebhook body) = False"
| "appendsAudit (AccountCreate rq body healthy) = False"

text \<open>The account objects in the body of a response.\<close>

fun returnedAccounts :: "response \<Rightarrow> (string \<times> json) list list" where
  "returnedAccounts (Reply n (PAccounts objs)) = objs"
| "returnedAccounts (Reply n (PAccount obj)) = [obj]"
| "returnedAccounts other = []"

text \<open>
  The identity rows of a number. \<open>contactsMade\<close> counts the contact a delivery has
  created once it is past its contact create, \<open>identitiesMade\<close> the identity it has
  created once it is done.
\<close>

definition identitiesOf :: "string \<Rightarrow> store \<Rightarrow> contactIdentity list" where
  "identitiesOf fromNumber st =
     filter (\<lambda>i. ci_whatsappNumber i = fromNumber) (whatsappContactIdentity st)"

fun contactsMade :: "progress \<Rightarrow> nat" where
  "contactsMade AtLookup = 0"
| "contactsMade AtCreateContact = 0"
| "contactsMade (AtCreateIdentity contactId) = 1"
| "contactsMade (Resolved contactId) = 1"
| "contactsMade Refused = 1"

fun identitiesMade :: "progress \<Rightarrow> nat" where
  "identitiesMade (Resolved contactId) = 1"
| "identitiesMade AtLookup = 0"
| "identitiesMade AtCreateContact = 0"
| "identitiesMade (AtCreateIdentity contactId) = 0"
| "identitiesMade Refused = 0"

text \<open>
  What holds of two deliveries that have both passed their lookup on a store \<open>st0\<close>
  that had no identity for the number, at every later point.
\<close>

definition pastLookup ::
  "bool \<Rightarrow> string \<Rightarrow> store \<Rightarrow> progress \<times> progress \<times> store \<Rightarrow> bool" where
  "pastLookup uniqueNumber fromNumber st0 state =
     (case state of (a, b, st) \<Rightarrow>
        a \<noteq> AtLookup \<and> b \<noteq> AtLookup
        \<and> (\<exists>new. contactTable st = contactTable st0 @ new
                  \<and> length new = contactsMade a + contactsMade b
                  \<and> (\<forall>c \<in> set new. ct_phone c = fromNumber))
        \<and> length (identitiesOf fromNumber st) = identitiesMade a + identitiesMade b
        \<and> (uniqueNumber \<longrightarrow>
              length (identitiesOf fromNumber st) \<le> 1
              \<and> (a = Refused \<or> b = Refused \<longrightarrow> 1 \<le> length (identitiesOf fromNumber st)))
        \<and> (\<not> uniqueNumber \<longrightarrow> a \<noteq> Refused \<and> b \<noteq> Refused))"

section \<open>Concrete data\<close>

text \<open>
  Tenant \<open>t1\<close> owns one account with one session, one contact with its WhatsApp
  identity, one conversation bound to the session and one outbound message.
\<close>

definition demoAccount :: account where
  "demoAccount =
     \<lparr>a_id = ''acc1'', a_tenantId = ''t1'', a_deploymentType = Some ''self_hosted'',
      a_channelType = Some ''web'', a_wahaBaseUrl = Some ''http://waha.local'',
      a_wahaApiKey = Some ''key-1'', a_internalWahaUrl = Some ''http://127.0.0.1:3500'',
      a_internalApiKey = Some ''key-2'', a_accessToken = Some ''tok'',
      a_metaAppSecret = Some ''sec'', a_businessName = Some ''Shop'',
      a_primaryPhone = Some ''+919876543210'', a_isWebConnected = True,
      a_status = ''active'', a_errorMessage = None,
      a_other = [(''createdAt'', JNum 1)]\<rparr>"

definition demoSession :: session where
  "demoSession =
     \<lparr>s_id = ''s1'', s_accountId = ''acc1'', s_employeeId = None,
      s_providerSessionId = Some ''waha-1'', s_qrCodeUrl = None, s_status = ''disconnected'',
      s_isActive = True, s_deviceName = Some ''Device'',
      s_phoneNumber = Some ''+919876543210'', s_dailySentCount = 0, s_dailyRecvCount = 0,
      s_lastSyncAt = None, s_lastSeenAt = None\<rparr>"

definition demoContact :: contact where
  "demoContact =
     \<lparr>ct_id = ''ct1'', ct_tenantId = ''t1'', ct_name = ''+911234567890'', ct_email = [],
      ct_phone = ''+911234567890'', ct_type = ''lead'', ct_status = ''active'',
      ct_source = ''whatsapp''\<rparr>"

definition demoIdentity :: contactIdentity where
  "demoIdentity =
     \<lparr>ci_id = ''ci1'', ci_contactId = ''ct1'', ci_whatsappNumber = ''+911234567890'',
      ci_verified = True, ci_verificationDate = Some 500\<rparr>"

definition demoConversation :: conversation where
  "demoConversation =
     \<lparr>c_id = ''c1'', c_accountId = ''acc1'', c_contactId = ''ct1'', c_sessionId = Some ''s1'',
      c_status = ''open'', c_lastMessageAt = None, c_lastDirection = None,
      c_unreadCount = 0, c_ticketId = None\<rparr>"

definition demoMessage :: message where
  "demoMessage =
     \<lparr>m_id = ''m1'', m_conversationId = ''c1'', m_sessionId = ''s1'', m_employeeId = None,
      m_direction = ''out'', m_messageType = ''text'', m_whatsappMessageId = ''wamid-1'',
      m_fromNumber = ''+919876543210'', m_toNumber = ''+911234567890'', m_text = Some ''Hi'',
      m_mediaUrl = None, m_mediaMimeType = None, m_mediaCaption = None, m_templateId = None,
      m_status = ''sent'', m_errorCode = None, m_errorMessage = None, m_sentAt = Some 1000,
      m_deliveredAt = None, m_readAt = None, m_createdAt = 1000\<rparr>"

definition demoStore :: store where
  "demoStore =
     \<lparr>userTable = [], whatsappAccount = [demoAccount], whatsappSession = [demoSession],
      contactTable = [demoContact], whatsappContactIdentity = [demoIdentity],
      whatsappConversation = [demoConversation], whatsappMessage = [demoMessage],
      whatsappTemplate = [], whatsappAuditLog = [], nextId = 7\<rparr>"

text \<open>
  Upper-casing of the ASCII letters, which is what the engine's \<open>toUpperCase\<close>
  does on a string of ASCII characters.
\<close>

definition asciiUpper :: "string \<Rightarrow> string" where
  "asciiUpper s =
     map (\<lambda>c. case map_of (zip ''abcdefghijklmnopqrstuvwxyz''
                                  ''ABCDEFGHIJKLMNOPQRSTUVWXYZ'') c of
                 None \<Rightarrow> c | Some u \<Rightarrow> u) s"

definition demoEnv :: env where
  "demoEnv = \<lparr>e_now = 9000, e_toUpperCase = asciiUpper,
              e_isUrl = (\<lambda>u. take 4 u = ''http''),
              e_auditWriteFails = False, e_accountDefaults = [(''createdAt'', JNum 9000)]\<rparr>"

definition requestOf :: "ident \<Rightarrow> request" where
  "requestOf tenant =
     \<lparr>rq_authorization = Token \<lparr>jp_userId = ''u1'', jp_tenantId = Some tenant,
                                 jp_licensedModules = Some [''marketing'']\<rparr>,
      rq_xForwardedFor = None, rq_xRealIp = None, rq_userAgent = None\<rparr>"

definition statusEvent :: "string \<Rightarrow> int \<Rightarrow> statusBody" where
  "statusEvent s t =
     \<lparr>sb_instance = Some ''waha-1'',
      sb_data = Some \<lparr>sd_id = Some ''wamid-1'', sd_status = Some s, sd_timestamp = Some t\<rparr>\<rparr>"

definition textBody :: "string \<Rightarrow> sendBody" where
  "textBody t = \<lparr>sn_conversationId = Some ''c1'', sn_text = Some t, sn_mediaUrl = None,
                 sn_templateId = None\<rparr>"

definition mixedBody :: sendBody where
  "mixedBody = \<lparr>sn_conversationId = Some ''c1'', sn_text = Some ''Hello'',
                sn_mediaUrl = Some ''http://cdn.local/a.png'', sn_templateId = Some ''tpl1''\<rparr>"

definition demoContext :: sendContext where
  "demoContext =
     \<lparr>sc_caller = \<lparr>cl_userId = ''u1'', cl_tenantId = ''t1''\<rparr>,
      sc_validated = \<lparr>sv_conversationId = ''c1'', sv_text = Some ''Hello'',
                      sv_mediaUrl = None, sv_templateId = None\<rparr>,
      sc_conversation = demoConversation, sc_session = demoSession,
      sc_toNumber = ''+911234567890'', sc_fromNumber = ''+919876543210'',
      sc_payload = \<lparr>wp_to = ''+911234567890'', wp_body = Some ''Hello'', wp_media = None,
                    wp_caption = None\<rparr>\<rparr>"

definition polledState :: "string \<Rightarrow> wahaInstance" where
  "polledState s = \<lparr>wi_state = Some s, wi_status = None, wi_meUser = None,
                    wi_phoneNumber = None\<rparr>"

text \<open>A first message from a number the store does not know.\<close>

definition inboundHi :: messageBody where
  "inboundHi =
     \<lparr>mb_instance = Some ''waha-1'',
      mb_data = Some \<lparr>d_from = Some ''+911111111111'', d_fromNumber = None,
                      d_body = Some ''Hi'', d_text = None, d_type = None,
                      d_id = Some ''wamid-9'', d_messageId = None, d_timestamp = Some 1700,
                      d_mediaUrl = None, d_mediaMimeType = None, d_mediaCaption = None,
                      d_media = None\<rparr>\<rparr>"

definition demoTemplate :: template where
  "demoTemplate =
     \<lparr>t_id = ''tpl1'', t_accountId = ''acc1'', t_name = ''welcome'', t_category = ''welcome'',
      t_languageCode = ''en'', t_bodyTemplate = ''Welcome!'', t_headerType = None,
      t_headerContent = None, t_footerContent = None, t_buttons = None,
      t_createdById = ''u1''\<rparr>"

definition templateStore :: store where
  "templateStore = demoStore\<lparr>whatsappTemplate := [demoTemplate]\<rparr>"

text \<open>Two deliveries taking one await each in turn.\<close>

definition raceSchedule :: "bool list" where
  "raceSchedule = [True, False, True, False, True, False]"

section \<open>Unfolding sets\<close>

lemmas js_defs = truthy_def orElse_def orNull_def strOr_def strOrNull_def

lemmas demo_defs = demoStore_def demoAccount_def demoSession_def demoContact_def
  demoIdentity_def demoConversation_def demoMessage_def demoEnv_def requestOf_def

lemmas auth_defs = requireModuleAccess_def checkModuleAccess_def handleLicenseError_def
  ipAddress_def userAgent_def

lemmas lookup_defs = findAccount_def findSession_def findConversation_def
  conversationSession_def

lemmas send_defs = messages_send_POST_def sendResolve_def sendAuthorize_def sendRecord_def
  sendMessageSchema_def resolveSession_def buildSendPayload_def sendResult_def
  outboundMessage_def sendAuditEntry_def createAuditLog_def newId_def numToString_def

lemmas inbound_defs = webhooks_message_POST_def resolveContact_def resolveConversation_def
  inboundMessage_def receiveAuditEntry_def mediaField_def eventTime_def newDate_def
  createAuditLog_def
  newId_def numToString_def

lemmas account_defs = accounts_GET_def accountWithRelations_def accountObject_def
  safeAccount_def secretKeys_def optStr_def sessionObject_def templateObject_def
  employeeObject_def optInstant_def

lemma digitsRev_numeral:
  "digitsRev (numeral k) n =
     (''0123456789'' ! (n mod 10)) # (if n < 10 then [] else digitsRev (pred_numeral k) (n div 10))"
  unfolding numeral_eq_Suc [of k] by simp

section \<open>Lookups in updated tables\<close>

lemma find_map_same:
  "find P xs = Some x \<Longrightarrow> (\<And>y. P (f y) = P y) \<Longrightarrow> find P (map f xs) = Some (f x)"
  by (induction xs) (auto split: if_splits)

lemma find_SomeD: "find P xs = Some x \<Longrightarrow> x \<in> set xs \<and> P x"
  by (induction xs) (auto split: if_splits)

lemma updateMessageStatus_key:
  "m_whatsappMessageId (updateMessageStatus i s d r m) = m_whatsappMessageId m"
  by (simp add: updateMessageStatus_def)

lemma storeDate_rowDate: "storeDate (rowDate v) = Some v"
  by (simp add: storeDate_def rowDate_def split: option.splits)

section \<open>Status updates\<close>

lemma status_row_after:
  assumes "find (\<lambda>m. Some (m_whatsappMessageId m) = k) msgs = Some msg"
  shows "find (\<lambda>m. Some (m_whatsappMessageId m) = k)
           (map (updateMessageStatus (m_id msg) s d r) msgs) =
         Some (msg\<lparr>m_status := s, m_deliveredAt := d, m_readAt := r\<rparr>)"
proof -
  have "find (\<lambda>m. Some (m_whatsappMessageId m) = k)
          (map (updateMessageStatus (m_id msg) s d r) msgs) =
        Some (updateMessageStatus (m_id msg) s d r msg)"
    using assms by (rule find_map_same) (simp add: updateMessageStatus_key)
  then show ?thesis by (simp add: updateMessageStatus_def)
qed

text \<open>
  C1, as the code has it. A status webhook whose message is found rewrites the row
  whatever its current status is: a status that \<open>toUpperCase\<close> turns into DELIVERED or
  ACK sets \<open>delivered\<close>, into READ sets \<open>read\<close>, into FAILED or ERROR sets
  \<open>failed\<close>, and any other status leaves status and timestamps as they are.
  \<open>deliveredAt\<close> is written only by a delivered event that finds it unset; \<open>readAt\<close>
  is written by every read event; both with the event's time. No status is terminal. An
  event whose time is to be written and is no valid date is answered 500 and changes
  nothing.
\<close>

theorem status_webhook_rewrites_row:
  assumes "sb_data body = Some data" and "truthy (sb_instance body)" and "truthy (sd_id data)"
    and "find (\<lambda>m. Some (m_whatsappMessageId m) = sd_id data) (whatsappMessage st) = Some msg"
  shows "let u = e_toUpperCase env (case sd_status data of None \<Rightarrow> [] | Some s \<Rightarrow> s);
             delivered = (u = ''DELIVERED'' \<or> u = ''ACK'');
             stamped = (delivered \<and> m_deliveredAt msg = None \<or> u = ''READ'');
             res = webhooks_status_POST env st body
         in (stamped \<and> eventTime (e_now env) (sd_timestamp data) = InvalidDate \<longrightarrow>
               res = (Failure 500 ''Webhook processing failed'', st))
          \<and> (\<forall>t. (stamped \<longrightarrow> eventTime (e_now env) (sd_timestamp data) = ValidDate t) \<longrightarrow>
               fst res = Reply 200 PSuccess \<and>
               find (\<lambda>m. Some (m_whatsappMessageId m) = sd_id data) (whatsappMessage (snd res)) =
                 Some (msg\<lparr>
                   m_status := (if delivered then ''delivered''
                                else if u = ''READ'' then ''read''
                                else if u = ''FAILED'' \<or> u = ''ERROR'' then ''failed''
                                else m_status msg),
                   m_deliveredAt := (if delivered \<and> m_deliveredAt msg = None
                                     then Some t else m_deliveredAt msg),
                   m_readAt := (if u = ''READ'' then Some t else m_readAt msg)\<rparr>))"
proof -
  define u where "u = e_toUpperCase env (case sd_status data of None \<Rightarrow> [] | Some s \<Rightarrow> s)"
  define ev where "ev = eventTime (e_now env) (sd_timestamp data)"
  have res: "webhooks_status_POST env st body =
      (case mapWahaStatus env msg (sd_status data) (sd_timestamp data) of
         (newStatus, deliveredAt, readAt) \<Rightarrow>
           (case (storeDate deliveredAt, storeDate readAt) of
              (Some deliveredAt', Some readAt') \<Rightarrow>
                (Reply 200 PSuccess,
                 st\<lparr>whatsappMessage :=
                      map (updateMessageStatus (m_id msg) newStatus deliveredAt' readAt')
                          (whatsappMessage st)\<rparr>)
            | _ \<Rightarrow> (Failure 500 ''Webhook processing failed'', st)))"
    using assms by (simp add: webhooks_status_POST_def)
  have m: "mapWahaStatus env msg (sd_status data) (sd_timestamp data) =
      (if u = ''DELIVERED'' \<or> u = ''ACK'' then
         (''delivered'',
          (if m_deliveredAt msg = None then Some ev else rowDate (m_deliveredAt msg)),
          rowDate (m_readAt msg))
       else if u = ''READ'' then (''read'', rowDate (m_deliveredAt msg), Some ev)
       else if u = ''FAILED'' \<or> u = ''ERROR'' then
         (''failed'', rowDate (m_deliveredAt msg), rowDate (m_readAt msg))
       else (m_status msg, rowDate (m_deliveredAt msg), rowDate (m_readAt msg)))"
    by (simp add: mapWahaStatus_def u_def ev_def Let_def)
  have inv: "storeDate (Some InvalidDate) = None"
    and val: "storeDate (Some (ValidDate t)) = Some (Some t)" for t
    by (simp_all add: storeDate_def)
  note row = status_row_after [OF assms(4)]
  show ?thesis
    unfolding Let_def u_def [symmetric] ev_def [symmetric] res m
    by (cases ev)
       (auto simp add: storeDate_rowDate inv val row split: option.splits)
qed

theorem status_webhook_rewrites_row_witness:
  "fst (webhooks_status_POST demoEnv demoStore (statusEvent ''read'' 1700)) = Reply 200 PSuccess
   \<and> find (\<lambda>m. m_whatsappMessageId m = ''wamid-1'')
        (whatsappMessage (snd (webhooks_status_POST demoEnv demoStore
                                 (statusEvent ''read'' 1700))))
      = Some (demoMessage\<lparr>m_status := ''read'', m_readAt := Some 1700000\<rparr>)"
  using status_webhook_rewrites_row
          [of "statusEvent ''read'' 1700"
              "\<lparr>sd_id = Some ''wamid-1'', sd_status = Some ''read'', sd_timestamp = Some 1700\<rparr>"
              demoStore demoMessage demoEnv]
  by (simp add: statusEvent_def demoStore_def demoMessage_def demoEnv_def asciiUpper_def
        truthy_def eventTime_def newDate_def Let_def)

text \<open>
  Scenario D on the code: READ at time 1700 sets \<open>read\<close> and \<open>readAt\<close>; the
  DELIVERED event that follows sets the status back to \<open>delivered\<close>.
\<close>

theorem read_then_delivered_counterexample:
  "map m_status (whatsappMessage
      (snd (webhooks_status_POST demoEnv demoStore (statusEvent ''READ'' 1700)))) = [''read'']
   \<and> map m_readAt (whatsappMessage
      (snd (webhooks_status_POST demoEnv demoStore (statusEvent ''READ'' 1700))))
       = [Some 1700000]
   \<and> map m_status (whatsappMessage
      (snd (webhooks_status_POST demoEnv
         (snd (webhooks_status_POST demoEnv demoStore (statusEvent ''READ'' 1700)))
         (statusEvent ''DELIVERED'' 1800)))) = [''delivered'']"
  by (simp add: webhooks_status_POST_def demoStore_def demoMessage_def demoEnv_def
        statusEvent_def truthy_def mapWahaStatus_def updateMessageStatus_def asciiUpper_def
        eventTime_def newDate_def storeDate_def rowDate_def Let_def)

section \<open>Sending\<close>

lemma digitsRev_nonempty: "digitsRev (Suc k) n \<noteq> []"
  by simp

lemma numToString_nonempty: "numToString n \<noteq> []"
  by (simp add: numToString_def)

lemma strOr_nonempty: "d \<noteq> [] \<Longrightarrow> strOr a d \<noteq> []"
  by (simp add: strOr_def split: option.splits)

lemma sendRecord_messages:
  "whatsappMessage (snd (sendRecord env st rq ctx outcome)) =
     whatsappMessage st @ [outboundMessage env st ctx outcome]"
  by (simp add: sendRecord_def Let_def createAuditLog_def)

lemma sendRecord_response:
  "fst (sendRecord env st rq ctx outcome) =
     (if e_auditWriteFails env then Failure 500 ''Failed to send message''
      else Reply 201 (PMessage (outboundMessage env st ctx outcome)))"
  by (simp add: sendRecord_def Let_def)

lemma send_reaches:
  "sendResolve env st rq body = Inr ctx \<Longrightarrow>
   messages_send_POST env st rq body outcome = sendRecord env st rq ctx outcome"
  by (simp add: messages_send_POST_def)

lemma send_early:
  "sendResolve env st rq body = Inl r \<Longrightarrow>
   messages_send_POST env st rq body outcome = (r, st)"
  by (simp add: messages_send_POST_def)

lemma outbound_failed:
  "m_status (outboundMessage env st ctx (SendFailed code rmsg emsg)) = ''failed''
   \<and> m_errorCode (outboundMessage env st ctx (SendFailed code rmsg emsg)) =
       Some (case code of None \<Rightarrow> ''UNKNOWN'' | Some n \<Rightarrow> numToString n)
   \<and> m_errorMessage (outboundMessage env st ctx (SendFailed code rmsg emsg)) =
       Some (strOr (orElse rmsg emsg) ''Failed to send message'')"
  using numToString_nonempty
  by (auto simp add: outboundMessage_def sendResult_def Let_def strOrNull_def strOr_def
      split: option.splits)

lemma outbound_sent: "m_status (outboundMessage env st ctx (Sent i j)) = ''sent''"
  by (simp add: outboundMessage_def sendResult_def Let_def)

lemma outbound_session: "m_sessionId (outboundMessage env st ctx outcome) = s_id (sc_session ctx)"
  by (simp add: outboundMessage_def Let_def split: prod.splits)

lemma sendResolve_session:
  assumes "sendAuthorize env st rq body = Inr (who, validated, conv, acct)"
    and "sendResolve env st rq body = Inr ctx"
  shows "resolveSession st conv = Some (sc_session ctx)"
  using assms
  by (auto simp add: sendResolve_def split: option.splits if_splits sum.splits)

lemma sendResolve_no_session:
  assumes "sendAuthorize env st rq body = Inr (who, validated, conv, acct)"
    and "resolveSession st conv = None"
  shows "sendResolve env st rq body = Inl (Failure 400 ''No active WhatsApp session'')"
  using assms by (simp add: sendResolve_def)

lemma sendResolve_bound_not_rejected:
  assumes "sendAuthorize env st rq body = Inr (who, validated, conv, acct)"
    and "conversationSession st conv = Some bound"
  shows "fst (messages_send_POST env st rq body outcome) \<noteq> Failure 400 ''No active WhatsApp session''"
proof (cases "sendResolve env st rq body")
  case (Inl r)
  have "r \<noteq> Failure 400 ''No active WhatsApp session''"
    using assms Inl
    by (auto simp add: sendResolve_def resolveSession_def buildSendPayload_def Let_def
        split: option.splits if_splits sum.splits)
  then show ?thesis by (simp add: send_early [OF Inl])
next
  case (Inr ctx)
  then show ?thesis by (simp add: send_reaches [OF Inr] sendRecord_response)
qed

text \<open>
  C2, as the code has it. Once license, schema, content, conversation and ownership
  checks have passed, the session used is the conversation's bound session whenever the
  conversation has one, whatever that session's status is (the request is then never
  answered \<open>No active WhatsApp session\<close>); only a conversation without a bound session
  falls back to the first session of the account that is connected and active. With
  neither, the request is answered 400 \<open>No active WhatsApp session\<close> and the store is
  unchanged. The message row written carries the id of the session used.
\<close>

theorem send_session_choice:
  assumes "sendAuthorize env st rq body = Inr (who, validated, conv, acct)"
  shows "(\<forall>bound. conversationSession st conv = Some bound \<longrightarrow>
            fst (messages_send_POST env st rq body outcome)
              \<noteq> Failure 400 ''No active WhatsApp session''
            \<and> (\<forall>ctx. sendResolve env st rq body = Inr ctx \<longrightarrow> sc_session ctx = bound))
       \<and> (conversationSession st conv = None \<longrightarrow>
            (\<forall>ctx. sendResolve env st rq body = Inr ctx \<longrightarrow>
               find (\<lambda>s. s_accountId s = c_accountId conv \<and> s_status s = ''connected''
                          \<and> s_isActive s) (whatsappSession st) = Some (sc_session ctx)))
       \<and> (conversationSession st conv = None
            \<and> find (\<lambda>s. s_accountId s = c_accountId conv \<and> s_status s = ''connected''
                          \<and> s_isActive s) (whatsappSession st) = None \<longrightarrow>
            messages_send_POST env st rq body outcome =
              (Failure 400 ''No active WhatsApp session'', st))
       \<and> (\<forall>ctx. sendResolve env st rq body = Inr ctx \<longrightarrow>
            (\<exists>msg. whatsappMessage (snd (messages_send_POST env st rq body outcome)) =
                      whatsappMessage st @ [msg]
                  \<and> m_sessionId msg = s_id (sc_session ctx)))"
proof (intro conjI allI impI)
  fix bound assume b: "conversationSession st conv = Some bound"
  show "fst (messages_send_POST env st rq body outcome) \<noteq> Failure 400 ''No active WhatsApp session''"
    using sendResolve_bound_not_rejected [OF assms b] .
next
  fix bound ctx
  assume b: "conversationSession st conv = Some bound"
    and r: "sendResolve env st rq body = Inr ctx"
  from sendResolve_session [OF assms r] b show "sc_session ctx = bound"
    by (simp add: resolveSession_def)
next
  fix ctx
  assume b: "conversationSession st conv = None"
    and r: "sendResolve env st rq body = Inr ctx"
  from sendResolve_session [OF assms r] b
  show "find (\<lambda>s. s_accountId s = c_accountId conv \<and> s_status s = ''connected''
                  \<and> s_isActive s) (whatsappSession st) = Some (sc_session ctx)"
    by (simp add: resolveSession_def)
next
  assume "conversationSession st conv = None
            \<and> find (\<lambda>s. s_accountId s = c_accountId conv \<and> s_status s = ''connected''
                          \<and> s_isActive s) (whatsappSession st) = None"
  then have "resolveSession st conv = None" by (simp add: resolveSession_def)
  from sendResolve_no_session [OF assms this]
  show "messages_send_POST env st rq body outcome = (Failure 400 ''No active WhatsApp session'', st)"
    by (rule send_early)
next
  fix ctx assume r: "sendResolve env st rq body = Inr ctx"
  show "\<exists>msg. whatsappMessage (snd (messages_send_POST env st rq body outcome)) =
                      whatsappMessage st @ [msg]
                  \<and> m_sessionId msg = s_id (sc_session ctx)"
    by (rule exI [of _ "outboundMessage env st ctx outcome"])
       (simp add: send_reaches [OF r] sendRecord_messages outbound_session)
qed


theorem send_session_choice_witness:
  "sendAuthorize demoEnv demoStore (requestOf ''t1'') (textBody ''Hello'') =
     Inr (\<lparr>cl_userId = ''u1'', cl_tenantId = ''t1''\<rparr>,
          \<lparr>sv_conversationId = ''c1'', sv_text = Some ''Hello'', sv_mediaUrl = None,
           sv_templateId = None\<rparr>, demoConversation, demoAccount)
   \<and> conversationSession demoStore demoConversation = Some demoSession
   \<and> fst (messages_send_POST demoEnv demoStore (requestOf ''t1'') (textBody ''Hello'')
            (Sent (Some ''wamid-2'') None)) \<noteq> Failure 400 ''No active WhatsApp session''"
proof -
  have a: "sendAuthorize demoEnv demoStore (requestOf ''t1'') (textBody ''Hello'') =
     Inr (\<lparr>cl_userId = ''u1'', cl_tenantId = ''t1''\<rparr>,
          \<lparr>sv_conversationId = ''c1'', sv_text = Some ''Hello'', sv_mediaUrl = None,
           sv_templateId = None\<rparr>, demoConversation, demoAccount)"
    by (simp add: demo_defs js_defs auth_defs lookup_defs sendAuthorize_def
          sendMessageSchema_def textBody_def)
  have b: "conversationSession demoStore demoConversation = Some demoSession"
    by (simp add: demo_defs lookup_defs)
  from send_session_choice [OF a, of "Sent (Some ''wamid-2'') None"] a b
  show ?thesis by blast
qed

text \<open>
  The claim fails on a conversation bound to a disconnected session, on an account
  with no connected session at all: the send is not refused, and a second message row
  is written with that session.
\<close>

theorem bound_disconnected_session_counterexample:
  "map s_status (whatsappSession demoStore) = [''disconnected'']
   \<and> fst (messages_send_POST demoEnv demoStore (requestOf ''t1'') (textBody ''Hello'')
            (Sent (Some ''wamid-2'') None)) \<noteq> Failure 400 ''No active WhatsApp session''
   \<and> length (whatsappMessage demoStore) = 1
   \<and> map m_sessionId (whatsappMessage (snd (messages_send_POST demoEnv demoStore
        (requestOf ''t1'') (textBody ''Hello'') (Sent (Some ''wamid-2'') None))))
       = [''s1'', ''s1'']"
  by (simp add: demo_defs js_defs auth_defs lookup_defs send_defs textBody_def Let_def)


text \<open>
  C3, as the code has it. A send that reaches the provider call writes exactly one
  message row, whatever the provider answers. When the provider call fails the row has
  status \<open>failed\<close>, the provider's HTTP status (or \<open>UNKNOWN\<close>) as error code and
  the provider's message (or the client error's, or the default) as error message. What
  the provider answers never decides the response: it is 201 with that row when the
  audit write after the row does not throw, and 500 when it does.
\<close>

theorem send_always_records:
  assumes "sendResolve env st rq body = Inr ctx"
  shows "\<exists>msg. whatsappMessage (snd (messages_send_POST env st rq body outcome)) =
                 whatsappMessage st @ [msg]
           \<and> fst (messages_send_POST env st rq body outcome) =
               (if e_auditWriteFails env then Failure 500 ''Failed to send message''
                else Reply 201 (PMessage msg))
           \<and> (\<forall>code rmsg emsg. outcome = SendFailed code rmsg emsg \<longrightarrow>
                m_status msg = ''failed''
                \<and> m_errorCode msg = Some (case code of None \<Rightarrow> ''UNKNOWN''
                                           | Some n \<Rightarrow> numToString n)
                \<and> m_errorMessage msg = Some (strOr (orElse rmsg emsg) ''Failed to send message''))
           \<and> (\<forall>i j. outcome = Sent i j \<longrightarrow> m_status msg = ''sent'')"
proof (intro exI conjI)
  show "whatsappMessage (snd (messages_send_POST env st rq body outcome)) =
          whatsappMessage st @ [outboundMessage env st ctx outcome]"
    by (simp add: send_reaches [OF assms] sendRecord_messages)
  show "fst (messages_send_POST env st rq body outcome) =
          (if e_auditWriteFails env then Failure 500 ''Failed to send message''
           else Reply 201 (PMessage (outboundMessage env st ctx outcome)))"
    by (simp add: send_reaches [OF assms] sendRecord_response)
  show "\<forall>code rmsg emsg. outcome = SendFailed code rmsg emsg \<longrightarrow>
          m_status (outboundMessage env st ctx outcome) = ''failed''
          \<and> m_errorCode (outboundMessage env st ctx outcome) =
              Some (case code of None \<Rightarrow> ''UNKNOWN'' | Some n \<Rightarrow> numToString n)
          \<and> m_errorMessage (outboundMessage env st ctx outcome) =
              Some (strOr (orElse rmsg emsg) ''Failed to send message'')"
    using outbound_failed by blast
  show "\<forall>i j. outcome = Sent i j \<longrightarrow> m_status (outboundMessage env st ctx outcome) = ''sent''"
    using outbound_sent by blast
qed

theorem send_always_records_witness:
  "length (whatsappMessage (snd (messages_send_POST demoEnv demoStore (requestOf ''t1'')
      (textBody ''Hello'') (SendFailed (Some 503) None (Some ''timeout''))))) = 2
   \<and> map m_status (whatsappMessage (snd (messages_send_POST demoEnv demoStore
      (requestOf ''t1'') (textBody ''Hello'') (SendFailed (Some 503) None (Some ''timeout'')))))
      = [''sent'', ''failed'']"
proof -
  have r: "sendResolve demoEnv demoStore (requestOf ''t1'') (textBody ''Hello'') = Inr demoContext"
    by (simp add: demo_defs js_defs auth_defs lookup_defs sendResolve_def sendAuthorize_def
          sendMessageSchema_def resolveSession_def buildSendPayload_def textBody_def
          demoContext_def Let_def)
  have m: "map m_status (whatsappMessage demoStore) = [''sent'']"
    by (simp add: demoStore_def demoMessage_def)
  from send_always_records [OF r, of "SendFailed (Some 503) None (Some ''timeout'')"]
  obtain msg where
    "whatsappMessage (snd (messages_send_POST demoEnv demoStore (requestOf ''t1'')
        (textBody ''Hello'') (SendFailed (Some 503) None (Some ''timeout'')))) =
      whatsappMessage demoStore @ [msg]"
    and "m_status msg = ''failed''"
    by blast
  with m show ?thesis by (simp add: demoStore_def)
qed

text \<open>
  The claim fails on a send whose provider call fails and whose audit write throws: the
  row is written with status \<open>failed\<close> and the request is answered 500.
\<close>

theorem provider_and_audit_failure_counterexample:
  "fst (messages_send_POST (demoEnv\<lparr>e_auditWriteFails := True\<rparr>) demoStore (requestOf ''t1'')
          (textBody ''Hello'') (SendFailed (Some 503) None (Some ''timeout'')))
     = Failure 500 ''Failed to send message''
   \<and> map m_status (whatsappMessage (snd (messages_send_POST
        (demoEnv\<lparr>e_auditWriteFails := True\<rparr>) demoStore (requestOf ''t1'')
        (textBody ''Hello'') (SendFailed (Some 503) None (Some ''timeout'')))))
       = [''sent'', ''failed'']"
  by (simp add: demo_defs js_defs auth_defs lookup_defs send_defs textBody_def Let_def)

lemma sendAuthorize_content:
  assumes "requireModuleAccess rq ''marketing'' = Inr who"
    and "sendMessageSchema (e_isUrl env) body = Some v"
    and "\<not> truthy (sv_text v) \<and> \<not> truthy (sv_mediaUrl v) \<and> \<not> truthy (sv_templateId v)"
  shows "sendAuthorize env st rq body =
           Inl (Failure 400 ''text, mediaUrl, or templateId required'')"
  using assms by (simp add: sendAuthorize_def)

lemma sendAuthorize_accepts:
  assumes "requireModuleAccess rq ''marketing'' = Inr who"
    and "sendMessageSchema (e_isUrl env) body = Some v"
    and "truthy (sv_text v) \<or> truthy (sv_mediaUrl v) \<or> truthy (sv_templateId v)"
    and "sendAuthorize env st rq body = Inl r"
  shows "r \<noteq> Failure 400 ''text, mediaUrl, or templateId required''
         \<and> r \<noteq> Failure 400 ''Validation error''"
  using assms by (auto simp add: sendAuthorize_def split: option.splits if_splits)

lemma sendResolve_accepts:
  assumes "sendAuthorize env st rq body = Inr a"
    and "sendResolve env st rq body = Inl r"
  shows "r \<noteq> Failure 400 ''text, mediaUrl, or templateId required''
         \<and> r \<noteq> Failure 400 ''Validation error''"
  using assms
  by (auto simp add: sendResolve_def buildSendPayload_def Let_def
      split: option.splits if_splits sum.splits prod.splits)

lemma sendResolve_authorize_Inl:
  "sendAuthorize env st rq body = Inl r \<Longrightarrow> sendResolve env st rq body = Inl r"
  by (simp add: sendResolve_def)

text \<open>
  C4, as the code has it. For a licensed caller and a body the schema accepts, the send
  is refused with 400 \<open>text, mediaUrl, or templateId required\<close> when none of the three
  is populated (absent or empty), with the store unchanged. As soon as one is populated
  the request passes both the schema and this check, however many are populated.
\<close>

theorem send_content_check:
  assumes "requireModuleAccess rq ''marketing'' = Inr who"
    and "sendMessageSchema (e_isUrl env) body = Some v"
  shows "(\<not> truthy (sv_text v) \<and> \<not> truthy (sv_mediaUrl v) \<and> \<not> truthy (sv_templateId v) \<longrightarrow>
            messages_send_POST env st rq body outcome =
              (Failure 400 ''text, mediaUrl, or templateId required'', st))
       \<and> (truthy (sv_text v) \<or> truthy (sv_mediaUrl v) \<or> truthy (sv_templateId v) \<longrightarrow>
            fst (messages_send_POST env st rq body outcome)
              \<noteq> Failure 400 ''text, mediaUrl, or templateId required''
            \<and> fst (messages_send_POST env st rq body outcome)
              \<noteq> Failure 400 ''Validation error'')"
proof (intro conjI)
  show "\<not> truthy (sv_text v) \<and> \<not> truthy (sv_mediaUrl v) \<and> \<not> truthy (sv_templateId v) \<longrightarrow>
          messages_send_POST env st rq body outcome =
            (Failure 400 ''text, mediaUrl, or templateId required'', st)"
  proof
    assume none: "\<not> truthy (sv_text v) \<and> \<not> truthy (sv_mediaUrl v) \<and> \<not> truthy (sv_templateId v)"
    from sendAuthorize_content [OF assms none, of st]
    show "messages_send_POST env st rq body outcome =
            (Failure 400 ''text, mediaUrl, or templateId required'', st)"
      by (intro send_early sendResolve_authorize_Inl)
  qed
next
  show "truthy (sv_text v) \<or> truthy (sv_mediaUrl v) \<or> truthy (sv_templateId v) \<longrightarrow>
          fst (messages_send_POST env st rq body outcome)
            \<noteq> Failure 400 ''text, mediaUrl, or templateId required''
          \<and> fst (messages_send_POST env st rq body outcome) \<noteq> Failure 400 ''Validation error''"
  proof
    assume some: "truthy (sv_text v) \<or> truthy (sv_mediaUrl v) \<or> truthy (sv_templateId v)"
    show "fst (messages_send_POST env st rq body outcome)
            \<noteq> Failure 400 ''text, mediaUrl, or templateId required''
          \<and> fst (messages_send_POST env st rq body outcome) \<noteq> Failure 400 ''Validation error''"
    proof (cases "sendResolve env st rq body")
      case (Inr ctx)
      then show ?thesis by (simp add: send_reaches [OF Inr] sendRecord_response)
    next
      case (Inl r)
      show ?thesis
      proof (cases "sendAuthorize env st rq body")
        case (Inl r')
        with sendResolve_authorize_Inl [OF Inl] \<open>sendResolve env st rq body = Inl r\<close>
        have "r' = r" by simp
        with sendAuthorize_accepts [OF assms some Inl] show ?thesis
          by (simp add: send_early [OF \<open>sendResolve env st rq body = Inl r\<close>])
      next
        case (Inr a)
        from sendResolve_accepts [OF Inr \<open>sendResolve env st rq body = Inl r\<close>] show ?thesis
          by (simp add: send_early [OF \<open>sendResolve env st rq body = Inl r\<close>])
      qed
    qed
  qed
qed

theorem send_content_check_witness:
  "fst (messages_send_POST demoEnv demoStore (requestOf ''t1'') mixedBody
          (Sent (Some ''wamid-2'') None))
     \<noteq> Failure 400 ''text, mediaUrl, or templateId required''
   \<and> messages_send_POST demoEnv demoStore (requestOf ''t1'') (textBody [])
          (Sent (Some ''wamid-2'') None)
     = (Failure 400 ''text, mediaUrl, or templateId required'', demoStore)"
proof -
  have l: "requireModuleAccess (requestOf ''t1'') ''marketing'' =
             Inr \<lparr>cl_userId = ''u1'', cl_tenantId = ''t1''\<rparr>"
    by (simp add: auth_defs requestOf_def)
  have v1: "sendMessageSchema (e_isUrl demoEnv) mixedBody =
      Some \<lparr>sv_conversationId = ''c1'', sv_text = Some ''Hello'',
            sv_mediaUrl = Some ''http://cdn.local/a.png'', sv_templateId = Some ''tpl1''\<rparr>"
    by (simp add: sendMessageSchema_def mixedBody_def demoEnv_def)
  have v2: "sendMessageSchema (e_isUrl demoEnv) (textBody []) =
      Some \<lparr>sv_conversationId = ''c1'', sv_text = Some [],
            sv_mediaUrl = None, sv_templateId = None\<rparr>"
    by (simp add: sendMessageSchema_def textBody_def demoEnv_def)
  from send_content_check [OF l v1, of demoStore "Sent (Some ''wamid-2'') None"]
       send_content_check [OF l v2, of demoStore "Sent (Some ''wamid-2'') None"]
  show ?thesis by (simp add: truthy_def)
qed

text \<open>
  The claim fails on a body that populates all three fields, the template being one of
  the account's: it is not refused, and a message row is written.
\<close>

theorem mixed_payload_accepted_counterexample:
  "truthy (sn_text mixedBody) \<and> truthy (sn_mediaUrl mixedBody) \<and> truthy (sn_templateId mixedBody)
   \<and> map t_id (whatsappTemplate templateStore) = [''tpl1'']
   \<and> fst (messages_send_POST demoEnv templateStore (requestOf ''t1'') mixedBody
            (Sent (Some ''wamid-2'') None)) \<noteq> Failure 400 ''Validation error''
   \<and> fst (messages_send_POST demoEnv templateStore (requestOf ''t1'') mixedBody
            (Sent (Some ''wamid-2'') None))
       \<noteq> Failure 400 ''text, mediaUrl, or templateId required''
   \<and> map m_status (whatsappMessage (snd (messages_send_POST demoEnv templateStore
        (requestOf ''t1'') mixedBody (Sent (Some ''wamid-2'') None)))) = [''sent'', ''sent'']"
  by (simp add: demo_defs js_defs auth_defs lookup_defs send_defs mixedBody_def
        templateStore_def demoTemplate_def Let_def)

section \<open>Polling a session\<close>

lemma wahaState_strOr:
  "(case orElse a (Some d) of None \<Rightarrow> [] | Some w \<Rightarrow> w) = (if d = [] then strOr a [] else strOr a d)"
  by (auto simp add: js_defs split: option.splits)

text \<open>
  C5, as the code has it. For the owner of a configured session, when the provider
  answers: the state (\<open>state\<close>, else \<open>status\<close>, else \<open>DISCONNECTED\<close>) maps to
  \<open>connected\<close> exactly when it is \<open>CONNECTED\<close> or \<open>connected\<close>, and to
  \<open>pending_qr\<close> otherwise. When the mapped status or the phone number differs from the
  stored one, the row gets the new status and phone number, \<open>lastSyncAt\<close> the current
  time, and \<open>lastSeenAt\<close> the current time if connected; when neither differs, nothing
  is written.
\<close>

theorem session_status_poll:
  assumes "requireModuleAccess rq ''marketing'' = Inr who"
    and "findSession st sessionId = Some sess"
    and "findAccount st (s_accountId sess) = Some acct"
    and "a_tenantId acct = cl_tenantId who"
    and "truthy (a_wahaBaseUrl acct)" and "truthy (a_wahaApiKey acct)"
    and "truthy (s_providerSessionId sess)"
  shows "let wahaState = strOr (orElse (wi_state inst) (wi_status inst)) ''DISCONNECTED'';
             newStatus = (if wahaState = ''CONNECTED'' \<or> wahaState = ''connected''
                          then ''connected'' else ''pending_qr'');
             phoneNumber = orElse (orElse (wi_meUser inst) (wi_phoneNumber inst))
                                  (s_phoneNumber sess);
             res = sessions_status_GET env st rq sessionId (Some inst)
         in fst res = Reply 200 (PSessionStatus newStatus phoneNumber
                                   (s_lastSyncAt sess) (s_lastSeenAt sess))
          \<and> (if newStatus \<noteq> s_status sess \<or> phoneNumber \<noteq> s_phoneNumber sess
              then findSession (snd res) sessionId =
                     Some (sess\<lparr>s_status := newStatus, s_phoneNumber := phoneNumber,
                                s_lastSyncAt := Some (e_now env),
                                s_lastSeenAt := (if newStatus = ''connected''
                                                 then Some (e_now env)
                                                 else s_lastSeenAt sess)\<rparr>)
              else snd res = st)"
proof -
  define wahaState where "wahaState = strOr (orElse (wi_state inst) (wi_status inst)) ''DISCONNECTED''"
  define newStatus where "newStatus = (if wahaState = ''CONNECTED'' \<or> wahaState = ''connected''
                          then ''connected'' else ''pending_qr'')"
  define phoneNumber where "phoneNumber = orElse (orElse (wi_meUser inst) (wi_phoneNumber inst))
                                  (s_phoneNumber sess)"
  define upd :: "session \<Rightarrow> session" where "upd = (\<lambda>s. if s_id s = sessionId
                                      then s\<lparr>s_status := newStatus,
                                             s_phoneNumber := phoneNumber,
                                             s_lastSyncAt := Some (e_now env),
                                             s_lastSeenAt :=
                                               (if newStatus = ''connected''
                                                then Some (e_now env)
                                                else s_lastSeenAt sess)\<rparr>
                                      else s)"
  have ws: "(case orElse (orElse (wi_state inst) (wi_status inst)) (Some ''DISCONNECTED'') of
               None \<Rightarrow> [] | Some w \<Rightarrow> w) = wahaState"
    by (simp add: wahaState_strOr wahaState_def)
  have res: "sessions_status_GET env st rq sessionId (Some inst) =
      (Reply 200 (PSessionStatus newStatus phoneNumber (s_lastSyncAt sess) (s_lastSeenAt sess)),
       if newStatus \<noteq> s_status sess \<or> phoneNumber \<noteq> s_phoneNumber sess
       then st\<lparr>whatsappSession := map upd (whatsappSession st)\<rparr> else st)"
    using assms
    by (simp add: sessions_status_GET_def ws Let_def newStatus_def phoneNumber_def upd_def)
  have sid: "s_id sess = sessionId"
    using find_SomeD [OF assms(2) [unfolded findSession_def]] by simp
  have "find (\<lambda>s. s_id s = sessionId) (map upd (whatsappSession st)) = Some (upd sess)"
    using assms(2) [unfolded findSession_def]
    by (rule find_map_same) (simp add: upd_def)
  then have found: "findSession (st\<lparr>whatsappSession := map upd (whatsappSession st)\<rparr>) sessionId =
      Some (sess\<lparr>s_status := newStatus, s_phoneNumber := phoneNumber,
                 s_lastSyncAt := Some (e_now env),
                 s_lastSeenAt := (if newStatus = ''connected'' then Some (e_now env)
                                  else s_lastSeenAt sess)\<rparr>)"
    by (simp add: findSession_def upd_def sid)
  show ?thesis
    unfolding Let_def wahaState_def [symmetric] newStatus_def [symmetric]
      phoneNumber_def [symmetric] res
    using found by simp
qed

theorem session_status_poll_witness:
  "findSession (snd (sessions_status_GET demoEnv demoStore (requestOf ''t1'') ''s1''
                      (Some (polledState ''CONNECTED'')))) ''s1''
     = Some (demoSession\<lparr>s_status := ''connected'', s_lastSyncAt := Some 9000,
                          s_lastSeenAt := Some 9000\<rparr>)"
  using session_status_poll
          [of "requestOf ''t1''" "\<lparr>cl_userId = ''u1'', cl_tenantId = ''t1''\<rparr>"
              demoStore "''s1''" demoSession demoAccount "polledState ''CONNECTED''" demoEnv]
  by (simp add: demo_defs js_defs auth_defs lookup_defs polledState_def Let_def)

text \<open>
  The claim fails on the state \<open>Connected\<close>, which is not recognised; on the state
  \<open>DISCONNECTED\<close>, which sets \<open>pending_qr\<close>; and on a session already connected
  with the same number, whose \<open>lastSyncAt\<close> stays unset.
\<close>

theorem poll_state_mapping_counterexample:
  "fst (sessions_status_GET demoEnv demoStore (requestOf ''t1'') ''s1''
          (Some (polledState ''Connected'')))
     = Reply 200 (PSessionStatus ''pending_qr'' (Some ''+919876543210'') None None)
   \<and> map s_status (whatsappSession demoStore) = [''disconnected'']
   \<and> map s_status (whatsappSession (snd (sessions_status_GET demoEnv demoStore
        (requestOf ''t1'') ''s1'' (Some (polledState ''DISCONNECTED''))))) = [''pending_qr'']
   \<and> map s_lastSyncAt (whatsappSession (snd (sessions_status_GET demoEnv
        (demoStore\<lparr>whatsappSession := [demoSession\<lparr>s_status := ''connected''\<rparr>]\<rparr>)
        (requestOf ''t1'') ''s1'' (Some (polledState ''CONNECTED''))))) = [None]"
  by (simp add: demo_defs js_defs auth_defs lookup_defs sessions_status_GET_def polledState_def Let_def)


section \<open>One conversation per account and contact\<close>

lemma keys_map_same:
  assumes "\<And>c. c_accountId (f c) = c_accountId c \<and> c_contactId (f c) = c_contactId c"
  shows "map (\<lambda>c. (c_accountId c, c_contactId c)) (map f xs) =
         map (\<lambda>c. (c_accountId c, c_contactId c)) xs"
  using assms by (induction xs) auto

lemma keys_comp_same:
  assumes "\<And>c. c_accountId (f c) = c_accountId c \<and> c_contactId (f c) = c_contactId c"
  shows "map ((\<lambda>c. (c_accountId c, c_contactId c)) \<circ> f) xs =
         map (\<lambda>c. (c_accountId c, c_contactId c)) xs"
  using assms by (induction xs) auto

lemma keys_sessions_POST:
  "whatsappConversation (snd (sessions_POST env st rq body outcome)) = whatsappConversation st"
  by (simp add: sessions_POST_def createAuditLog_def Let_def
      split: sum.splits option.splits createOutcome.splits)

lemma keys_sessions_accountId_GET:
  "snd (sessions_accountId_GET st rq accountId) = st"
  by (simp add: sessions_accountId_GET_def split: sum.splits option.splits)

lemma keys_sessions_status_GET:
  "whatsappConversation (snd (sessions_status_GET env st rq sessionId polled)) =
   whatsappConversation st"
  by (simp add: sessions_status_GET_def Let_def split: sum.splits option.splits)

lemma keys_conversations_id_GET:
  "snd (conversations_id_GET st rq conversationId) = st"
  by (simp add: conversations_id_GET_def split: sum.splits option.splits)

lemma keys_conversations_id_PATCH:
  "conversationKeys (snd (conversations_id_PATCH st rq conversationId body)) = conversationKeys st"
  by (simp add: conversations_id_PATCH_def conversationKeys_def Let_def keys_map_same
      split: sum.splits option.splits)

lemma keys_conversation_messages_GET:
  "snd (conversation_messages_GET st rq conversationId limit offset) = st"
  by (simp add: conversation_messages_GET_def Let_def split: sum.splits option.splits)

lemma keys_messages_send_POST:
  "conversationKeys (snd (messages_send_POST env st rq body outcome)) = conversationKeys st"
  by (simp add: messages_send_POST_def sendRecord_def createAuditLog_def conversationKeys_def
      Let_def keys_map_same split: sum.splits)

lemma keys_templates_GET: "snd (templates_GET st rq accountId category) = st"
  by (simp add: templates_GET_def split: sum.splits option.splits)

lemma keys_templates_POST:
  "whatsappConversation (snd (templates_POST env st rq body)) = whatsappConversation st"
  by (simp add: templates_POST_def createAuditLog_def Let_def split: sum.splits option.splits)

lemma keys_accounts_GET: "snd (accounts_GET st rq) = st"
  by (simp add: accounts_GET_def split: sum.splits)

lemma keys_accounts_POST: "snd (accounts_POST env st rq body healthy) = st"
  by (simp add: accounts_POST_def)

lemma keys_webhooks_status_POST:
  "whatsappConversation (snd (webhooks_status_POST env st body)) = whatsappConversation st"
  by (simp add: webhooks_status_POST_def Let_def split: option.splits prod.splits)

lemma resolveContact_conversations:
  "whatsappConversation (snd (resolveContact env st tenant fromNumber)) = whatsappConversation st"
  by (simp add: resolveContact_def Let_def split: option.splits)

lemma resolveConversation_unique:
  assumes "uniqueConversations st"
  shows "uniqueConversations (snd (resolveConversation st sess contactId))"
proof (cases "find (\<lambda>c. c_accountId c = s_accountId sess \<and> c_contactId c = contactId)
                (whatsappConversation st)")
  case (Some c)
  then show ?thesis using assms by (simp add: resolveConversation_def)
next
  case None
  then have "(s_accountId sess, contactId) \<notin> set (conversationKeys st)"
    by (auto simp add: find_None_iff conversationKeys_def)
  with assms None show ?thesis
    by (simp add: resolveConversation_def uniqueConversations_def conversationKeys_def Let_def)
qed

lemma keys_webhooks_message_POST:
  "conversationKeys (snd (webhooks_message_POST env st body)) = conversationKeys st
   \<or> (\<exists>t n sess cid.
         conversationKeys (snd (webhooks_message_POST env st body)) =
         conversationKeys (snd (resolveConversation (snd (resolveContact env st t n)) sess cid)))"
  by (simp add: webhooks_message_POST_def Let_def createAuditLog_def conversationKeys_def
        case_prod_beta keys_map_same keys_comp_same split: option.splits jsDate.splits)
     blast

lemma unique_webhooks_message_POST:
  assumes "uniqueConversations st"
  shows "uniqueConversations (snd (webhooks_message_POST env st body))"
proof -
  have step: "uniqueConversations (snd (resolveConversation (snd (resolveContact env st t n)) sess cid))"
    for t n sess cid
    by (rule resolveConversation_unique)
       (use assms in \<open>simp add: uniqueConversations_def conversationKeys_def
          resolveContact_conversations\<close>)
  from keys_webhooks_message_POST [of env st body] show ?thesis
  proof
    assume "conversationKeys (snd (webhooks_message_POST env st body)) = conversationKeys st"
    with assms show ?thesis by (simp add: uniqueConversations_def)
  next
    assume "\<exists>t n sess cid.
         conversationKeys (snd (webhooks_message_POST env st body)) =
         conversationKeys (snd (resolveConversation (snd (resolveContact env st t n)) sess cid))"
    then obtain t n sess cid where
      "conversationKeys (snd (webhooks_message_POST env st body)) =
         conversationKeys (snd (resolveConversation (snd (resolveContact env st t n)) sess cid))"
      by blast
    with step [of t n sess cid] show ?thesis by (simp add: uniqueConversations_def)
  qed
qed

lemma perform_unique:
  assumes "uniqueConversations st"
  shows "uniqueConversations (snd (perform env st op))"
proof (cases op)
  case (InboundWebhook body)
  then show ?thesis using assms by (simp add: unique_webhooks_message_POST)
next
  case (Send rq body outcome)
  then show ?thesis using assms
    by (simp add: uniqueConversations_def keys_messages_send_POST)
next
  case (ConversationUpdate rq cid body)
  then show ?thesis using assms
    by (simp add: uniqueConversations_def keys_conversations_id_PATCH)
qed (use assms in \<open>simp_all add: uniqueConversations_def conversationKeys_def
      keys_sessions_POST keys_sessions_accountId_GET keys_sessions_status_GET
      keys_conversations_id_GET keys_conversation_messages_GET keys_templates_GET
      keys_templates_POST keys_accounts_GET keys_accounts_POST keys_webhooks_status_POST\<close>)

text \<open>
  C6. If no two conversation rows have the same account and contact, this is still so
  after any sequence of operations served one after the other: the inbound webhook
  creates a conversation only when its lookup by account and contact finds none, and
  send, conversation update and every other route leave both columns of every row as
  they are.
\<close>

theorem conversations_stay_unique:
  "uniqueConversations st \<Longrightarrow> uniqueConversations (run st ops)"
proof (induction ops arbitrary: st)
  case Nil
  then show ?case by simp
next
  case (Cons eo ops)
  obtain env op where eo: "eo = (env, op)" by (cases eo)
  from Cons.prems have "uniqueConversations (snd (perform env st op))"
    by (rule perform_unique)
  then show ?case unfolding eo by (simp add: Cons.IH)
qed

theorem conversations_stay_unique_witness:
  "uniqueConversations demoStore
   \<and> uniqueConversations (run demoStore
        [(demoEnv, InboundWebhook inboundHi),
         (demoEnv, Send (requestOf ''t1'') (textBody ''Hello'') (Sent None None)),
         (demoEnv, InboundWebhook inboundHi)])
   \<and> map c_contactId (whatsappConversation
        (run demoStore [(demoEnv, InboundWebhook inboundHi)])) = [''ct1'', ''id7'']"
proof -
  have u: "uniqueConversations demoStore"
    by (simp add: uniqueConversations_def conversationKeys_def demoStore_def
          demoConversation_def)
  have n: "map c_contactId (whatsappConversation
        (run demoStore [(demoEnv, InboundWebhook inboundHi)])) = [''ct1'', ''id7'']"
    by (simp add: inbound_defs inboundHi_def demo_defs js_defs lookup_defs digitsRev_numeral Let_def)
  have r: "uniqueConversations (run demoStore
        [(demoEnv, InboundWebhook inboundHi),
         (demoEnv, Send (requestOf ''t1'') (textBody ''Hello'') (Sent None None)),
         (demoEnv, InboundWebhook inboundHi)])"
    using u by (rule conversations_stay_unique)
  show ?thesis by (rule conjI [OF u conjI [OF r n]])
qed

section \<open>First contact\<close>

lemma find_None_filter: "(find P xs = None) = (filter P xs = [])"
  by (induction xs) auto

lemma unknown_identitiesOf:
  "(find (\<lambda>i. ci_whatsappNumber i = n) (whatsappContactIdentity st) = None) =
   (identitiesOf n st = [])"
  by (simp add: identitiesOf_def find_None_filter)

lemma advance_alone:
  assumes "find (\<lambda>i. ci_whatsappNumber i = n) (whatsappContactIdentity st) = None"
  shows "advance env u t n (advance env u t n (advance env u t n (AtLookup, st))) =
           (Resolved (fst (resolveContact env st t n)), snd (resolveContact env st t n))"
  using assms by (simp add: resolveContact_def Let_def)

lemma resolveContact_again:
  assumes "find (\<lambda>i. ci_whatsappNumber i = n) (whatsappContactIdentity st) = None"
  shows "resolveContact env (snd (resolveContact env st tA n)) tB n =
           (fst (resolveContact env st tA n), snd (resolveContact env st tA n))
       \<and> length (contactTable (snd (resolveContact env st tA n))) = length (contactTable st) + 1
       \<and> length (identitiesOf n (snd (resolveContact env st tA n))) = 1"
proof -
  have none: "find (\<lambda>i. ci_whatsappNumber i = n) (xs @ [y]) = Some y"
    if "find (\<lambda>i. ci_whatsappNumber i = n) xs = None" "ci_whatsappNumber y = n"
    for xs and y :: contactIdentity
    using that by (induction xs) (auto split: if_splits)
  have f: "filter (\<lambda>i. ci_whatsappNumber i = n) (whatsappContactIdentity st) = []"
    using assms by (simp add: find_None_filter)
  show ?thesis
    using assms by (simp add: resolveContact_def Let_def none identitiesOf_def f)
qed

lemma pastLookup_start:
  assumes "find (\<lambda>i. ci_whatsappNumber i = n) (whatsappContactIdentity st) = None"
  shows "pastLookup u n st (AtCreateContact, AtCreateContact, st)"
  using assms by (simp add: pastLookup_def unknown_identitiesOf)

lemma pastLookup_advance:
  assumes "pastLookup u n st0 (a, b, st)"
  shows "pastLookup u n st0 (fst (advance env u t n (a, st)), b, snd (advance env u t n (a, st)))"
proof (cases a)
  case AtLookup
  with assms show ?thesis by (simp add: pastLookup_def)
next
  case AtCreateContact
  with assms show ?thesis
    by (auto simp add: pastLookup_def identitiesOf_def)
next
  case (AtCreateIdentity contactId)
  show ?thesis
  proof (cases "u \<and> find (\<lambda>i. ci_whatsappNumber i = n) (whatsappContactIdentity st) \<noteq> None")
    case True
    then have "identitiesOf n st \<noteq> []" by (simp add: unknown_identitiesOf)
    then have "1 \<le> length (identitiesOf n st)" by (cases "identitiesOf n st") simp_all
    with assms AtCreateIdentity True show ?thesis
      by (cases b) (auto simp add: pastLookup_def)
  next
    case False
    have grow: "length (identitiesOf n (st\<lparr>whatsappContactIdentity :=
                   whatsappContactIdentity st @
                     [\<lparr>ci_id = newId st, ci_contactId = contactId, ci_whatsappNumber = n,
                       ci_verified = True, ci_verificationDate = Some (e_now env)\<rparr>],
                   nextId := nextId st + 1\<rparr>)) = length (identitiesOf n st) + 1"
      by (simp add: identitiesOf_def)
    have zero: "u \<Longrightarrow> length (identitiesOf n st) = 0"
      using False by (simp add: unknown_identitiesOf)
    from assms AtCreateIdentity False show ?thesis
      using grow zero by (cases b) (auto simp add: pastLookup_def)
  qed
next
  case (Resolved contactId)
  with assms show ?thesis by simp
next
  case Refused
  with assms show ?thesis by simp
qed

lemma pastLookup_swap:
  "pastLookup u n st0 (a, b, st) = pastLookup u n st0 (b, a, st)"
  by (auto simp add: pastLookup_def add.commute)

lemma pastLookup_interleave:
  assumes "pastLookup u n st0 (a, b, st)"
  shows "pastLookup u n st0 (interleave env u tA tB n schedule (a, b, st))"
  using assms
proof (induction schedule arbitrary: a b st)
  case Nil
  then show ?case by simp
next
  case (Cons first schedule)
  show ?case
  proof (cases first)
    case True
    obtain a' st' where step: "advance env u tA n (a, st) = (a', st')"
      by (cases "advance env u tA n (a, st)")
    from pastLookup_advance [OF Cons.prems, of env tA] step
    have "pastLookup u n st0 (a', b, st')" by simp
    from Cons.IH [OF this] show ?thesis using True step by simp
  next
    case False
    obtain b' st' where step: "advance env u tB n (b, st) = (b', st')"
      by (cases "advance env u tB n (b, st)")
    from Cons.prems have "pastLookup u n st0 (b, a, st)" by (simp only: pastLookup_swap)
    from pastLookup_advance [OF this, of env tB] step
    have "pastLookup u n st0 (b', a, st')" by simp
    then have "pastLookup u n st0 (a, b', st')" by (simp only: pastLookup_swap)
    from Cons.IH [OF this] show ?thesis using False step by simp
  qed
qed

lemma both_lookups_first:
  assumes "find (\<lambda>i. ci_whatsappNumber i = n) (whatsappContactIdentity st) = None"
  shows "interleave env u tA tB n (first # (\<not> first) # schedule) (AtLookup, AtLookup, st) =
         interleave env u tA tB n schedule (AtCreateContact, AtCreateContact, st)"
  using assms by (cases first) simp_all

lemma pastLookup_finished:
  assumes "pastLookup u n st0 (a, b, st)" and "finished a" and "finished b"
  shows "(\<exists>cA cB. contactTable st = contactTable st0 @ [cA, cB]
                  \<and> ct_phone cA = n \<and> ct_phone cB = n)
       \<and> (u \<longrightarrow> length (identitiesOf n st) = 1 \<and> (a = Refused) \<noteq> (b = Refused))
       \<and> (\<not> u \<longrightarrow> length (identitiesOf n st) = 2)"
proof -
  from assms(2) have "contactsMade a = 1" by (cases a) simp_all
  moreover from assms(3) have "contactsMade b = 1" by (cases b) simp_all
  ultimately have made: "contactsMade a = 1" "contactsMade b = 1" by simp_all
  from assms(1) obtain new where new: "contactTable st = contactTable st0 @ new"
    "length new = contactsMade a + contactsMade b" "\<forall>c \<in> set new. ct_phone c = n"
    by (auto simp add: pastLookup_def)
  from new(2) made have "length new = Suc (Suc 0)" by simp
  then obtain cA cB where "new = [cA, cB]"
    by (auto simp add: length_Suc_conv)
  with new have contacts: "\<exists>cA cB. contactTable st = contactTable st0 @ [cA, cB]
                  \<and> ct_phone cA = n \<and> ct_phone cB = n"
    by auto
  from assms(1) have count: "length (identitiesOf n st) = identitiesMade a + identitiesMade b"
    and key: "u \<Longrightarrow> length (identitiesOf n st) \<le> 1"
    and refused: "u \<Longrightarrow> a = Refused \<or> b = Refused \<Longrightarrow> 1 \<le> length (identitiesOf n st)"
    and free: "\<not> u \<Longrightarrow> a \<noteq> Refused \<and> b \<noteq> Refused"
    by (auto simp add: pastLookup_def)
  have with_key: "length (identitiesOf n st) = 1 \<and> (a = Refused) \<noteq> (b = Refused)" if u
    using assms(2,3) count key [OF that] refused [OF that]
    by (cases a; cases b) simp_all
  have without_key: "length (identitiesOf n st) = 2" if "\<not> u"
    using assms(2,3) count free [OF that]
    by (cases a; cases b) simp_all
  from contacts with_key without_key show ?thesis by blast
qed

text \<open>
  C7, as the code has it. For a number the store has no identity for: a delivery served
  alone runs the three awaits of lines 45 to 74, and a second delivery served after it
  finds the identity, so that exactly one contact and one identity result. The handler
  is a lookup followed by two creates, with no transaction: when both deliveries pass
  their lookup before either creates, every schedule of the remaining awaits that lets
  both finish leaves two contact rows for the number. With the unique key on
  \<open>whatsappNumber\<close> one identity results and exactly one of the two deliveries is
  stopped by the refused create; without it two identities result.
\<close>

theorem first_contact_deliveries:
  assumes "find (\<lambda>i. ci_whatsappNumber i = n) (whatsappContactIdentity st) = None"
  shows "advance env u tA n (advance env u tA n (advance env u tA n (AtLookup, st))) =
           (Resolved (fst (resolveContact env st tA n)), snd (resolveContact env st tA n))
       \<and> resolveContact env (snd (resolveContact env st tA n)) tB n =
           (fst (resolveContact env st tA n), snd (resolveContact env st tA n))
       \<and> length (contactTable (snd (resolveContact env st tA n))) = length (contactTable st) + 1
       \<and> length (identitiesOf n (snd (resolveContact env st tA n))) = 1
       \<and> (\<forall>first schedule a b st'.
             interleave env u tA tB n (first # (\<not> first) # schedule) (AtLookup, AtLookup, st)
               = (a, b, st')
             \<and> finished a \<and> finished b \<longrightarrow>
             (\<exists>cA cB. contactTable st' = contactTable st @ [cA, cB]
                      \<and> ct_phone cA = n \<and> ct_phone cB = n)
             \<and> (u \<longrightarrow> length (identitiesOf n st') = 1 \<and> (a = Refused) \<noteq> (b = Refused))
             \<and> (\<not> u \<longrightarrow> length (identitiesOf n st') = 2))"
proof (intro conjI allI impI)
  show "advance env u tA n (advance env u tA n (advance env u tA n (AtLookup, st))) =
           (Resolved (fst (resolveContact env st tA n)), snd (resolveContact env st tA n))"
    using assms by (rule advance_alone)
next
  show "resolveContact env (snd (resolveContact env st tA n)) tB n =
           (fst (resolveContact env st tA n), snd (resolveContact env st tA n))"
    and "length (contactTable (snd (resolveContact env st tA n))) = length (contactTable st) + 1"
    and "length (identitiesOf n (snd (resolveContact env st tA n))) = 1"
    using resolveContact_again [OF assms] by simp_all
next
  fix first schedule a b st'
  assume run: "interleave env u tA tB n (first # (\<not> first) # schedule) (AtLookup, AtLookup, st)
                 = (a, b, st')
               \<and> finished a \<and> finished b"
  then have "interleave env u tA tB n schedule (AtCreateContact, AtCreateContact, st) = (a, b, st')"
    by (simp only: both_lookups_first [OF assms])
  with pastLookup_interleave [OF pastLookup_start [OF assms], of u env tA tB schedule]
  have inv: "pastLookup u n st (a, b, st')" by simp
  from pastLookup_finished [OF inv] run
  have all: "(\<exists>cA cB. contactTable st' = contactTable st @ [cA, cB]
                  \<and> ct_phone cA = n \<and> ct_phone cB = n)
       \<and> (u \<longrightarrow> length (identitiesOf n st') = 1 \<and> (a = Refused) \<noteq> (b = Refused))
       \<and> (\<not> u \<longrightarrow> length (identitiesOf n st') = 2)"
    by blast
  from all show "\<exists>cA cB. contactTable st' = contactTable st @ [cA, cB]
                  \<and> ct_phone cA = n \<and> ct_phone cB = n" by blast
  from all show "length (identitiesOf n st') = 1" if u using that by blast
  from all show "(a = Refused) \<noteq> (b = Refused)" if u using that by blast
  from all show "length (identitiesOf n st') = 2" if "\<not> u" using that by blast
qed
theorem first_contact_deliveries_witness:
  "find (\<lambda>i. ci_whatsappNumber i = ''+911111111111'') (whatsappContactIdentity demoStore) = None
   \<and> length (contactTable (snd (resolveContact demoEnv demoStore ''t1'' ''+911111111111''))) = 2
   \<and> length (contactTable (snd (snd (interleave demoEnv True ''t1'' ''t1'' ''+911111111111''
         raceSchedule (AtLookup, AtLookup, demoStore))))) = 3"
proof -
  let ?R = "interleave demoEnv True ''t1'' ''t1'' ''+911111111111''
              (True # (\<not> True) # [True, False, True, False]) (AtLookup, AtLookup, demoStore)"
  have h: "find (\<lambda>i. ci_whatsappNumber i = ''+911111111111'')
             (whatsappContactIdentity demoStore) = None"
    by (simp add: demoStore_def demoIdentity_def)
  have s: "raceSchedule = True # (\<not> True) # [True, False, True, False]"
    by (simp add: raceSchedule_def)
  have f: "finished (fst ?R) \<and> finished (fst (snd ?R))"
    by (simp add: demoStore_def demoIdentity_def)
  have c: "length (contactTable demoStore) = 1"
    by (simp add: demoStore_def)
  have r: "?R = (fst ?R, fst (snd ?R), snd (snd ?R))"
    by (simp only: prod.collapse)
  from first_contact_deliveries [OF h, of demoEnv True "''t1''" "''t1''"] r f
  have "length (contactTable (snd (resolveContact demoEnv demoStore ''t1'' ''+911111111111'')))
          = length (contactTable demoStore) + 1
        \<and> (\<exists>cA cB. contactTable (snd (snd ?R)) = contactTable demoStore @ [cA, cB])"
    by blast
  with h c show ?thesis unfolding s by auto
qed

text \<open>
  The claim fails on two deliveries of a number new to the store, each taking one await
  in turn: both pass the lookup, both create a contact, and the store ends with two
  contact rows for the number, with the unique key on the identity's number or
  without it.
\<close>

theorem two_contacts_counterexample:
  "map ci_whatsappNumber (whatsappContactIdentity demoStore) = [''+911234567890'']
   \<and> map ct_phone (contactTable demoStore) = [''+911234567890'']
   \<and> map ct_phone (contactTable (snd (snd (interleave demoEnv True ''t1'' ''t1''
         ''+911111111111'' raceSchedule (AtLookup, AtLookup, demoStore)))))
       = [''+911234567890'', ''+911111111111'', ''+911111111111'']
   \<and> map ct_phone (contactTable (snd (snd (interleave demoEnv False ''t1'' ''t1''
         ''+911111111111'' raceSchedule (AtLookup, AtLookup, demoStore)))))
       = [''+911234567890'', ''+911111111111'', ''+911111111111'']"
  by (simp add: raceSchedule_def demoStore_def demoIdentity_def demoContact_def)

section \<open>Tenant ownership\<close>

lemma foreign_sendAuthorize:
  assumes "requireModuleAccess rq ''marketing'' = Inr who"
    and "targetAccount st (Send rq body outcome) = Some acct"
    and "a_tenantId acct \<noteq> cl_tenantId who"
  shows "\<exists>r. sendAuthorize env st rq body = Inl r
           \<and> (wellFormed env (Send rq body outcome) \<longrightarrow> r = Failure 403 ''Unauthorized'')
           \<and> (\<not> wellFormed env (Send rq body outcome) \<longrightarrow> (\<exists>e. r = Failure 400 e))"
  using assms
  by (auto simp add: sendAuthorize_def sendMessageSchema_def conversationAccount_def
      split: option.splits if_splits)

lemma foreign_send:
  assumes "requireModuleAccess rq ''marketing'' = Inr who"
    and "targetAccount st (Send rq body outcome) = Some acct"
    and "a_tenantId acct \<noteq> cl_tenantId who"
  shows "snd (messages_send_POST env st rq body outcome) = st
       \<and> (wellFormed env (Send rq body outcome) \<longrightarrow>
            fst (messages_send_POST env st rq body outcome) = Failure 403 ''Unauthorized'')
       \<and> (\<not> wellFormed env (Send rq body outcome) \<longrightarrow>
            (\<exists>e. fst (messages_send_POST env st rq body outcome) = Failure 400 e))"
proof -
  from foreign_sendAuthorize [OF assms] obtain r where
    r: "sendAuthorize env st rq body = Inl r"
    and w: "wellFormed env (Send rq body outcome) \<longrightarrow> r = Failure 403 ''Unauthorized''"
    and n: "\<not> wellFormed env (Send rq body outcome) \<longrightarrow> (\<exists>e. r = Failure 400 e)"
    by blast
  from r have "messages_send_POST env st rq body outcome = (r, st)"
    by (intro send_early sendResolve_authorize_Inl)
  with w n show ?thesis by simp
qed

lemma foreign_session_create:
  assumes "requireModuleAccess rq ''marketing'' = Inr who"
    and "targetAccount st (SessionCreate rq body outcome) = Some acct"
    and "a_tenantId acct \<noteq> cl_tenantId who"
  shows "snd (sessions_POST env st rq body outcome) = st
       \<and> (wellFormed env (SessionCreate rq body outcome) \<longrightarrow>
            fst (sessions_POST env st rq body outcome) = Failure 403 ''Unauthorized'')
       \<and> (\<not> wellFormed env (SessionCreate rq body outcome) \<longrightarrow>
            (\<exists>e. fst (sessions_POST env st rq body outcome) = Failure 400 e))"
proof -
  from assms(2) obtain a where a: "cs_accountId body = Some a" "findAccount st a = Some acct"
    by (auto split: option.splits)
  have l: "(Suc 0 \<le> length a) = (a \<noteq> [])"
    by (cases a) simp_all
  show ?thesis
    using assms(1,3) a by (cases "a = []") (simp_all add: sessions_POST_def strOr_def l)
qed

lemma foreign_session_list:
  assumes "requireModuleAccess rq ''marketing'' = Inr who"
    and "findAccount st accountId = Some acct"
    and "a_tenantId acct \<noteq> cl_tenantId who"
  shows "sessions_accountId_GET st rq accountId = (Failure 403 ''Unauthorized'', st)"
  using assms by (simp add: sessions_accountId_GET_def)

lemma foreign_session_status:
  assumes "requireModuleAccess rq ''marketing'' = Inr who"
    and "targetAccount st (SessionStatus rq sessionId polled) = Some acct"
    and "a_tenantId acct \<noteq> cl_tenantId who"
  shows "sessions_status_GET env st rq sessionId polled = (Failure 403 ''Unauthorized'', st)"
  using assms by (auto simp add: sessions_status_GET_def split: option.splits)

lemma foreign_conversation_read:
  assumes "requireModuleAccess rq ''marketing'' = Inr who"
    and "conversationAccount st conversationId = Some acct"
  shows "conversations_id_GET st rq conversationId = (Failure 403 ''Unauthorized'', st)"
  using assms
  by (auto simp add: conversations_id_GET_def conversationAccount_def split: option.splits)

lemma foreign_conversation_update:
  assumes "requireModuleAccess rq ''marketing'' = Inr who"
    and "conversationAccount st conversationId = Some acct"
    and "a_tenantId acct \<noteq> cl_tenantId who"
  shows "snd (conversations_id_PATCH st rq conversationId body) = st
       \<and> (wellFormed env (ConversationUpdate rq conversationId body) \<longrightarrow>
            fst (conversations_id_PATCH st rq conversationId body) = Failure 403 ''Unauthorized'')
       \<and> (\<not> wellFormed env (ConversationUpdate rq conversationId body) \<longrightarrow>
            (\<exists>e. fst (conversations_id_PATCH st rq conversationId body) = Failure 400 e))"
proof -
  from assms(2) obtain c where
    c: "findConversation st conversationId = Some c" "findAccount st (c_accountId c) = Some acct"
    by (auto simp add: conversationAccount_def split: option.splits)
  show ?thesis
    using assms(1,3) c
    by (cases "uc_status body") (simp_all add: conversations_id_PATCH_def)
qed

lemma foreign_message_list:
  assumes "requireModuleAccess rq ''marketing'' = Inr who"
    and "conversationAccount st conversationId = Some acct"
    and "a_tenantId acct \<noteq> cl_tenantId who"
  shows "conversation_messages_GET st rq conversationId limit offset =
           (Failure 403 ''Unauthorized'', st)"
  using assms
  by (auto simp add: conversation_messages_GET_def conversationAccount_def split: option.splits)

lemma foreign_template_read:
  assumes "requireModuleAccess rq ''marketing'' = Inr who"
    and "targetAccount st (TemplateRead rq accountId category) = Some acct"
    and "a_tenantId acct \<noteq> cl_tenantId who"
  shows "snd (templates_GET st rq accountId category) = st
       \<and> (wellFormed env (TemplateRead rq accountId category) \<longrightarrow>
            fst (templates_GET st rq accountId category) = Failure 403 ''Unauthorized'')
       \<and> (\<not> wellFormed env (TemplateRead rq accountId category) \<longrightarrow>
            (\<exists>e. fst (templates_GET st rq accountId category) = Failure 400 e))"
proof -
  from assms(2) obtain a where a: "accountId = Some a" "findAccount st a = Some acct"
    by (auto split: option.splits)
  show ?thesis
    using assms(1,3) a by (simp add: templates_GET_def strOr_def)
qed

lemma strOr_Some_id: "strOr (Some a) [] = a"
  by (simp add: strOr_def)

lemma foreign_template_create:
  assumes "requireModuleAccess rq ''marketing'' = Inr who"
    and "targetAccount st (TemplateCreate rq body) = Some acct"
    and "a_tenantId acct \<noteq> cl_tenantId who"
  shows "snd (templates_POST env st rq body) = st
       \<and> (wellFormed env (TemplateCreate rq body) \<longrightarrow>
            fst (templates_POST env st rq body) = Failure 403 ''Unauthorized'')
       \<and> (\<not> wellFormed env (TemplateCreate rq body) \<longrightarrow>
            (\<exists>e. fst (templates_POST env st rq body) = Failure 400 e))"
proof -
  from assms(2) obtain a where a: "tb_accountId body = Some a" "findAccount st a = Some acct"
    by (auto split: option.splits)
  show ?thesis
    using assms(1,3) a by (simp add: templates_POST_def strOr_Some_id)
qed

text \<open>
  C8, as the code has it. Session create, session list, session status, conversation
  read, conversation update, message list, send, template read and template create,
  invoked by a licensed caller whose tenant differs from the tenant of the account the
  operation addresses: the store is unchanged and the operation fails, with 403
  \<open>Unauthorized\<close> when the request passes the input validation of its route, and with
  status 400 when it does not, since every route validates before it compares tenants.
\<close>

theorem foreign_tenant_refused:
  assumes "targetAccount st op = Some acct"
    and "operationRequest op = Some rq"
    and "requireModuleAccess rq ''marketing'' = Inr who"
    and "a_tenantId acct \<noteq> cl_tenantId who"
  shows "snd (perform env st op) = st
       \<and> (wellFormed env op \<longrightarrow> fst (perform env st op) = Failure 403 ''Unauthorized'')
       \<and> (\<not> wellFormed env op \<longrightarrow> (\<exists>e. fst (perform env st op) = Failure 400 e))"
proof (cases op)
  case (SessionCreate rq' body outcome)
  with assms show ?thesis using foreign_session_create [of rq who st body outcome acct env] by simp
next
  case (SessionList rq' accountId)
  with assms show ?thesis using foreign_session_list [of rq who st accountId acct] by simp
next
  case (SessionStatus rq' sessionId polled)
  with assms show ?thesis
    using foreign_session_status [of rq who st sessionId polled acct env] by simp
next
  case (ConversationRead rq' conversationId)
  with assms show ?thesis
    using foreign_conversation_read [of rq who st conversationId acct] by simp
next
  case (ConversationUpdate rq' conversationId body)
  with assms show ?thesis
    using foreign_conversation_update [of rq who st conversationId acct body env] by simp
next
  case (MessageList rq' conversationId limit offset)
  with assms show ?thesis
    using foreign_message_list [of rq who st conversationId acct limit offset] by simp
next
  case (Send rq' body outcome)
  with assms show ?thesis using foreign_send [of rq who st body outcome acct env] by simp
next
  case (TemplateRead rq' accountId category)
  with assms show ?thesis
    using foreign_template_read [of rq who st accountId category acct env] by simp
next
  case (TemplateCreate rq' body)
  with assms show ?thesis using foreign_template_create [of rq who st body acct env] by simp
qed (use assms in simp_all)

theorem foreign_tenant_refused_witness:
  "perform demoEnv demoStore (Send (requestOf ''t2'') (textBody ''Hello'') (Sent None None)) =
     (Failure 403 ''Unauthorized'', demoStore)"
proof -
  have t: "targetAccount demoStore (Send (requestOf ''t2'') (textBody ''Hello'') (Sent None None))
             = Some demoAccount"
    by (simp add: conversationAccount_def lookup_defs demo_defs textBody_def)
  have r: "operationRequest (Send (requestOf ''t2'') (textBody ''Hello'') (Sent None None))
             = Some (requestOf ''t2'')"
    by simp
  have l: "requireModuleAccess (requestOf ''t2'') ''marketing'' =
             Inr \<lparr>cl_userId = ''u1'', cl_tenantId = ''t2''\<rparr>"
    by (simp add: auth_defs requestOf_def)
  have d: "a_tenantId demoAccount \<noteq> cl_tenantId \<lparr>cl_userId = ''u1'', cl_tenantId = ''t2''\<rparr>"
    by (simp add: demoAccount_def)
  have w: "wellFormed demoEnv (Send (requestOf ''t2'') (textBody ''Hello'') (Sent None None))"
    by (simp add: sendMessageSchema_def textBody_def truthy_def)
  from foreign_tenant_refused [OF t r l d, of demoEnv] w show ?thesis
    by (simp add: prod_eq_iff)
qed

text \<open>
  The claim fails on a send by a caller of tenant \<open>t2\<close> on a conversation of tenant
  \<open>t1\<close> with an empty text: the answer is 400, not \<open>Unauthorized\<close>.
\<close>

theorem foreign_empty_send_counterexample:
  "a_tenantId demoAccount = ''t1''
   \<and> c_accountId demoConversation = a_id demoAccount
   \<and> perform demoEnv demoStore (Send (requestOf ''t2'') (textBody []) (Sent None None)) =
       (Failure 400 ''text, mediaUrl, or templateId required'', demoStore)"
  by (simp add: demo_defs js_defs auth_defs lookup_defs messages_send_POST_def
        sendResolve_def sendAuthorize_def sendMessageSchema_def textBody_def)

section \<open>Audit trail\<close>

lemma sendResolve_Inl_Failure:
  "sendResolve env st rq body = Inl r \<Longrightarrow> \<exists>n m. r = Failure n m"
  by (auto simp add: sendResolve_def sendAuthorize_def buildSendPayload_def
        handleLicenseError_def Let_def
      split: option.splits if_splits sum.splits prod.splits)

lemma sendAuthorize_flag:
  "sendAuthorize (env\<lparr>e_auditWriteFails := b\<rparr>) st rq body = sendAuthorize env st rq body"
  by (simp add: sendAuthorize_def cong: sum.case_cong)

lemma sendResolve_flag:
  "sendResolve (env\<lparr>e_auditWriteFails := b\<rparr>) st rq body = sendResolve env st rq body"
  by (simp add: sendResolve_def sendAuthorize_flag)

lemma sendRecord_flag:
  "sendRecord (env\<lparr>e_auditWriteFails := False\<rparr>) st rq ctx outcome = (Reply n p, st') \<Longrightarrow>
   sendRecord (env\<lparr>e_auditWriteFails := True\<rparr>) st rq ctx outcome =
     (Failure 500 ''Failed to send message'', st'\<lparr>whatsappAuditLog := whatsappAuditLog st\<rparr>)"
  by (auto simp add: sendRecord_def Let_def createAuditLog_def outboundMessage_def)

lemma audit_send:
  assumes "messages_send_POST (env\<lparr>e_auditWriteFails := False\<rparr>) st rq body outcome =
             (Reply n p, st')"
  shows "messages_send_POST (env\<lparr>e_auditWriteFails := True\<rparr>) st rq body outcome =
           (Failure 500 ''Failed to send message'', st'\<lparr>whatsappAuditLog := whatsappAuditLog st\<rparr>)"
proof (cases "sendResolve env st rq body")
  case (Inl r)
  with sendResolve_Inl_Failure [OF Inl] assms show ?thesis
    by (auto simp add: messages_send_POST_def sendResolve_flag)
next
  case (Inr ctx)
  with assms show ?thesis
    by (simp add: messages_send_POST_def sendResolve_flag sendRecord_flag)
qed


lemma audit_inbound:
  assumes "webhooks_message_POST (env\<lparr>e_auditWriteFails := False\<rparr>) st body = (Reply n p, st')"
  shows "webhooks_message_POST (env\<lparr>e_auditWriteFails := True\<rparr>) st body =
           (Failure 500 ''Webhook processing failed'',
            st'\<lparr>whatsappAuditLog := whatsappAuditLog st\<rparr>)"
proof -
  have rc: "resolveContact (env\<lparr>e_auditWriteFails := b\<rparr>) s t f = resolveContact env s t f"
    for b s t f
    by (simp add: resolveContact_def cong: option.case_cong)
  have al1: "whatsappAuditLog (snd (resolveContact env st t f)) = whatsappAuditLog st" for t f
    by (simp add: resolveContact_def Let_def split: option.splits)
  have al2: "whatsappAuditLog (snd (resolveConversation s sess c)) = whatsappAuditLog s" for s sess c
    by (simp add: resolveConversation_def Let_def split: option.splits)
  show ?thesis
    using assms
    by (auto simp add: webhooks_message_POST_def Let_def createAuditLog_def rc al1 al2
          case_prod_beta intro!: store.equality
          split: option.splits if_splits jsDate.splits)
qed

lemma audit_session_create:
  assumes "sessions_POST (env\<lparr>e_auditWriteFails := False\<rparr>) st rq body outcome = (Reply n p, st')"
  shows "sessions_POST (env\<lparr>e_auditWriteFails := True\<rparr>) st rq body outcome =
           (Failure 500 ''Failed to create session'',
            st'\<lparr>whatsappAuditLog := whatsappAuditLog st\<rparr>)"
  using assms
  by (auto simp add: sessions_POST_def Let_def createAuditLog_def handleLicenseError_def
      split: sum.splits option.splits if_splits createOutcome.splits)

lemma audit_template_create:
  assumes "templates_POST (env\<lparr>e_auditWriteFails := False\<rparr>) st rq body = (Reply n p, st')"
  shows "templates_POST (env\<lparr>e_auditWriteFails := True\<rparr>) st rq body =
           (Failure 500 ''Failed to create template'',
            st'\<lparr>whatsappAuditLog := whatsappAuditLog st\<rparr>)"
  using assms
  by (auto simp add: templates_POST_def Let_def createAuditLog_def handleLicenseError_def
      split: sum.splits option.splits if_splits)

text \<open>
  C9, as the code has it. For the inbound webhook, send, session create and template
  create: whenever the operation succeeds with a working audit write, the same operation
  with a throwing audit write is answered 500, and the store it leaves is the store of
  the successful run with the audit table as it was before. The rows written before the
  audit entry stay; the success response does not.
\<close>

theorem audit_failure_fails_request:
  assumes "appendsAudit op"
    and "perform (env\<lparr>e_auditWriteFails := False\<rparr>) st op = (Reply n p, st')"
  shows "\<exists>e. perform (env\<lparr>e_auditWriteFails := True\<rparr>) st op =
               (Failure 500 e, st'\<lparr>whatsappAuditLog := whatsappAuditLog st\<rparr>)"
proof (cases op)
  case (InboundWebhook body)
  with assms(2) show ?thesis using audit_inbound [of env st body n p st'] by simp
next
  case (Send rq body outcome)
  with assms(2) show ?thesis using audit_send [of env st rq body outcome n p st'] by simp
next
  case (SessionCreate rq body outcome)
  with assms(2) show ?thesis
    using audit_session_create [of env st rq body outcome n p st'] by simp
next
  case (TemplateCreate rq body)
  with assms(2) show ?thesis using audit_template_create [of env st rq body n p st'] by simp
qed (use assms(1) in simp_all)

theorem audit_failure_fails_request_witness:
  "appendsAudit (InboundWebhook inboundHi)
   \<and> perform (demoEnv\<lparr>e_auditWriteFails := True\<rparr>) demoStore (InboundWebhook inboundHi) =
       (Failure 500 ''Webhook processing failed'',
        (snd (perform demoEnv demoStore (InboundWebhook inboundHi)))\<lparr>whatsappAuditLog := []\<rparr>)"
proof -
  have f: "fst (perform (demoEnv\<lparr>e_auditWriteFails := False\<rparr>) demoStore (InboundWebhook inboundHi))
             = Reply 200 PSuccess"
    by (simp add: inbound_defs inboundHi_def demo_defs js_defs lookup_defs digitsRev_numeral Let_def)
  have e: "demoEnv\<lparr>e_auditWriteFails := False\<rparr> = demoEnv"
    by (simp add: demoEnv_def)
  have h: "perform (demoEnv\<lparr>e_auditWriteFails := False\<rparr>) demoStore (InboundWebhook inboundHi)
             = (Reply 200 PSuccess, snd (perform demoEnv demoStore (InboundWebhook inboundHi)))"
    using f by (simp add: e prod_eq_iff)
  have r: "fst (perform (demoEnv\<lparr>e_auditWriteFails := True\<rparr>) demoStore (InboundWebhook inboundHi))
             = Failure 500 ''Webhook processing failed''"
    by (simp add: inbound_defs inboundHi_def demo_defs js_defs lookup_defs digitsRev_numeral Let_def)
  have a: "appendsAudit (InboundWebhook inboundHi)" by simp
  have l: "whatsappAuditLog demoStore = []"
    by (simp add: demoStore_def)
  from audit_failure_fails_request [OF a h] obtain e where
    p: "perform (demoEnv\<lparr>e_auditWriteFails := True\<rparr>) demoStore (InboundWebhook inboundHi) =
          (Failure 500 e,
           (snd (perform demoEnv demoStore (InboundWebhook inboundHi)))
             \<lparr>whatsappAuditLog := whatsappAuditLog demoStore\<rparr>)"
    by blast
  from p r have "e = ''Webhook processing failed''" by simp
  with p l a show ?thesis by simp
qed

text \<open>
  The claim fails on an inbound message: with a throwing audit write the webhook is
  answered 500 although the message row has been written.
\<close>

theorem audit_failure_counterexample:
  "fst (webhooks_message_POST demoEnv demoStore inboundHi) = Reply 200 PSuccess
   \<and> fst (webhooks_message_POST (demoEnv\<lparr>e_auditWriteFails := True\<rparr>) demoStore inboundHi)
       = Failure 500 ''Webhook processing failed''
   \<and> map m_direction (whatsappMessage (snd (webhooks_message_POST
        (demoEnv\<lparr>e_auditWriteFails := True\<rparr>) demoStore inboundHi))) = [''out'', ''in'']"
  by (simp add: inbound_defs inboundHi_def demo_defs js_defs lookup_defs Let_def)

section \<open>Account secrets\<close>

lemma safeAccount_keys: "k \<in> set secretKeys \<Longrightarrow> k \<notin> fst ` set (safeAccount obj)"
  by (auto simp add: safeAccount_def)

lemma returned_GET:
  "obj \<in> set (returnedAccounts (fst (accounts_GET st rq))) \<Longrightarrow>
   \<exists>full. obj = safeAccount full"
  by (auto simp add: accounts_GET_def handleLicenseError_def split: sum.splits)

lemma returned_POST_resolved:
  "obj \<in> set (returnedAccounts (fst (accounts_POST_resolved env st access rq body healthy))) \<Longrightarrow>
   \<exists>full. obj = safeAccount full"
  by (auto simp add: accounts_POST_resolved_def handleLicenseError_def Let_def
      split: sum.splits if_splits)

lemma returned_POST: "returnedAccounts (fst (accounts_POST env st rq body healthy)) = []"
  by (simp add: accounts_POST_def)

text \<open>
  C10. No account object in a response of the account list or of the account creation
  has one of the keys \<open>wahaApiKey\<close>, \<open>internalApiKey\<close>, \<open>accessToken\<close>,
  \<open>metaAppSecret\<close>, \<open>internalWahaUrl\<close>, whatever the store holds. This is so for
  the creation handler as the file has it, which returns no account at all, and for its
  lines 72 to 156 run with a caller resolved in any way.
\<close>

theorem secrets_never_returned:
  "\<forall>obj \<in> set (returnedAccounts (fst (accounts_GET st rq)))
           \<union> set (returnedAccounts (fst (accounts_POST env st rq' body healthy)))
           \<union> set (returnedAccounts (fst (accounts_POST_resolved env st access rq' body healthy))).
     ''wahaApiKey'' \<notin> fst ` set obj \<and> ''internalApiKey'' \<notin> fst ` set obj
     \<and> ''accessToken'' \<notin> fst ` set obj \<and> ''metaAppSecret'' \<notin> fst ` set obj
     \<and> ''internalWahaUrl'' \<notin> fst ` set obj"
proof
  fix obj
  assume "obj \<in> set (returnedAccounts (fst (accounts_GET st rq)))
           \<union> set (returnedAccounts (fst (accounts_POST env st rq' body healthy)))
           \<union> set (returnedAccounts (fst (accounts_POST_resolved env st access rq' body healthy)))"
  then have "obj \<in> set (returnedAccounts (fst (accounts_GET st rq)))
           \<or> obj \<in> set (returnedAccounts
                           (fst (accounts_POST_resolved env st access rq' body healthy)))"
    by (simp add: returned_POST)
  then obtain full where "obj = safeAccount full"
    using returned_GET returned_POST_resolved by blast
  then show "''wahaApiKey'' \<notin> fst ` set obj \<and> ''internalApiKey'' \<notin> fst ` set obj
     \<and> ''accessToken'' \<notin> fst ` set obj \<and> ''metaAppSecret'' \<notin> fst ` set obj
     \<and> ''internalWahaUrl'' \<notin> fst ` set obj"
    by (simp add: safeAccount_keys secretKeys_def)
qed

theorem secrets_never_returned_witness:
  "map (map fst) (returnedAccounts (fst (accounts_GET demoStore (requestOf ''t1'')))) =
     [[''id'', ''tenantId'', ''deploymentType'', ''channelType'', ''wahaBaseUrl'',
       ''businessName'', ''primaryPhone'', ''isWebConnected'', ''status'', ''errorMessage'',
       ''createdAt'', ''sessions'', ''templates'', ''_count'']]
   \<and> a_wahaApiKey demoAccount = Some ''key-1''
   \<and> ''wahaApiKey'' \<notin> fst ` set (hd (returnedAccounts
                                          (fst (accounts_GET demoStore (requestOf ''t1'')))))"
proof -
  have k: "map (map fst) (returnedAccounts (fst (accounts_GET demoStore (requestOf ''t1'')))) =
     [[''id'', ''tenantId'', ''deploymentType'', ''channelType'', ''wahaBaseUrl'',
       ''businessName'', ''primaryPhone'', ''isWebConnected'', ''status'', ''errorMessage'',
       ''createdAt'', ''sessions'', ''templates'', ''_count'']]"
    by (simp add: account_defs demo_defs auth_defs)
  then have "hd (returnedAccounts (fst (accounts_GET demoStore (requestOf ''t1''))))
               \<in> set (returnedAccounts (fst (accounts_GET demoStore (requestOf ''t1''))))"
    by (cases "returnedAccounts (fst (accounts_GET demoStore (requestOf ''t1'')))") simp_all
  with secrets_never_returned [of demoStore "requestOf ''t1''"] k
  show ?thesis by (simp add: demoAccount_def)
qed

end
